theory Spec2Isabelle
  imports Main
begin

section \<open>Strings of the JavaScript runtime\<close>

text \<open>
  A JavaScript string is a sequence of UTF-16 code units. A code unit is modelled by its
  number; \<open>js\<close> turns an ASCII literal of the theory into such a sequence.
\<close>

type_synonym jstring = "nat list"

definition js :: "string \<Rightarrow> jstring" where
  "js s = map of_char s"

text \<open>
  The code units matched by \<open>\s\<close> in a regular expression and removed by
  \<open>String.prototype.trim\<close>: WhiteSpace and LineTerminator of ECMAScript.
\<close>

definition ws_ranges :: "(nat \<times> nat) list" where
  "ws_ranges = [(9, 13), (32, 32), (160, 160), (5760, 5760), (8192, 8202), (8232, 8233),
                (8239, 8239), (8287, 8287), (12288, 12288), (65279, 65279)]"

definition in_ranges :: "nat \<Rightarrow> (nat \<times> nat) list \<Rightarrow> bool" where
  "in_ranges c rs = list_ex (\<lambda>(lo, hi). lo \<le> c \<and> c \<le> hi) rs"

definition is_ws :: "nat \<Rightarrow> bool" where
  "is_ws c = in_ranges c ws_ranges"

definition line_terminator :: "nat \<Rightarrow> bool" where
  "line_terminator c = (c = 10 \<or> c = 13 \<or> c = 8232 \<or> c = 8233)"

text \<open>\<open>s.trim()\<close>\<close>

definition trim :: "jstring \<Rightarrow> jstring" where
  "trim s = rev (dropWhile is_ws (rev (dropWhile is_ws s)))"

text \<open>\<open>s.startsWith(t)\<close>\<close>

fun startsWith :: "jstring \<Rightarrow> jstring \<Rightarrow> bool" where
  "startsWith s [] = True"
| "startsWith [] (c # t) = False"
| "startsWith (x # s) (c # t) = (x = c \<and> startsWith s t)"

text \<open>\<open>s.includes(t)\<close>\<close>

fun str_includes :: "jstring \<Rightarrow> jstring \<Rightarrow> bool" where
  "str_includes [] t = (t = [])"
| "str_includes (x # s) t = (startsWith (x # s) t \<or> str_includes s t)"

section \<open>Regular expressions\<close>

text \<open>
  The patterns of the source are written as syntax trees and run by a backtracking
  matcher with the priorities of ECMAScript: alternatives left to right, greedy
  quantifiers longest first, lazy ones shortest first. \<open>Cls neg rs\<close> is a character class
  of ranges (negated when \<open>neg\<close>), \<open>Dot\<close> is \<open>.\<close> without the \<open>s\<close> flag, \<open>Star g r\<close> is
  \<open>r*\<close> (greedy when \<open>g\<close>, else \<open>r*?\<close>), \<open>Grp i r\<close> is the capturing group number
  \<open>i\<close>, \<open>Ahead r\<close> is \<open>(?=r)\<close>, \<open>Bol\<close> and \<open>Eol\<close> are \<open>^\<close> and \<open>$\<close> without the
  \<open>m\<close> flag.
\<close>

datatype re =
    Lit jstring
  | Cls bool "(nat \<times> nat) list"
  | Dot
  | Bol
  | Eol
  | Seq re re
  | Alt re re
  | Star bool re
  | Grp nat re
  | Ahead re

text \<open>
  The matcher works on a stack of frames: what is still to be matched after the current
  term. \<open>Prog p g r\<close> resumes the loop \<open>Star g r\<close> entered at position \<open>p\<close> and rejects
  an iteration that consumed nothing, as RepeatMatcher does; \<open>Close i p s\<close> ends group
  \<open>i\<close>, opened at position \<open>p\<close> in front of \<open>s\<close>.
\<close>

datatype frame = M re | Prog nat bool re | Close nat nat jstring

text \<open>
  The captures so far, latest first: the number of a group, the length of what it matched
  and the text it was opened in front of.
\<close>

type_synonym caps = "(nat \<times> nat \<times> jstring) list"

text \<open>
  Canonicalize of the \<open>i\<close> flag. Every pattern of the source is ASCII, and a code unit
  from 128 on is never canonicalized to one below 128, so only the ASCII letters matter.
\<close>

definition canon :: "bool \<Rightarrow> nat \<Rightarrow> nat" where
  "canon ic c = (if ic \<and> 97 \<le> c \<and> c \<le> 122 then c - 32 else c)"

definition swapcase :: "nat \<Rightarrow> nat" where
  "swapcase c = (if 97 \<le> c \<and> c \<le> 122 then c - 32
                 else if 65 \<le> c \<and> c \<le> 90 then c + 32 else c)"

definition cls_match :: "bool \<Rightarrow> bool \<Rightarrow> (nat \<times> nat) list \<Rightarrow> nat \<Rightarrow> bool" where
  "cls_match ic neg rs c =
     (neg \<noteq> (in_ranges c rs \<or> (ic \<and> in_ranges (swapcase c) rs)))"

fun wre :: "re \<Rightarrow> nat" where
  "wre (Lit l) = length l + 1"
| "wre (Cls n rs) = 1"
| "wre Dot = 1"
| "wre Bol = 1"
| "wre Eol = 1"
| "wre (Seq a b) = wre a + wre b + 1"
| "wre (Alt a b) = wre a + wre b + 1"
| "wre (Star g r) = wre r + 2"
| "wre (Grp i r) = wre r + 2"
| "wre (Ahead r) = wre r + 1"

fun wfr :: "nat \<Rightarrow> frame \<Rightarrow> nat" where
  "wfr p (M r) = wre r"
| "wfr p (Prog p0 g r) = (if p0 < p then wre r + 3 else 0)"
| "wfr p (Close i p0 s0) = 1"

definition wst :: "nat \<Rightarrow> frame list \<Rightarrow> nat" where
  "wst p k = sum_list (map (wfr p) k)"

text \<open>
  \<open>run ic k p s cs\<close> matches the frames \<open>k\<close> against a prefix of \<open>s\<close>, which starts at
  position \<open>p\<close> of the subject, with the captures \<open>cs\<close> so far. It returns the end
  position, the rest of the subject and the captures of the first match in priority
  order, or \<open>None\<close>.
\<close>

function (sequential) run ::
  "bool \<Rightarrow> frame list \<Rightarrow> nat \<Rightarrow> jstring \<Rightarrow> caps \<Rightarrow> (nat \<times> jstring \<times> caps) option" where
  "run ic [] p s cs = Some (p, s, cs)"
| "run ic (M (Lit []) # k) p s cs = run ic k p s cs"
| "run ic (M (Lit (c # l)) # k) p [] cs = None"
| "run ic (M (Lit (c # l)) # k) p (x # xs) cs =
     (if canon ic c = canon ic x then run ic (M (Lit l) # k) (p + 1) xs cs else None)"
| "run ic (M (Cls neg rs) # k) p [] cs = None"
| "run ic (M (Cls neg rs) # k) p (x # xs) cs =
     (if cls_match ic neg rs x then run ic k (p + 1) xs cs else None)"
| "run ic (M Dot # k) p [] cs = None"
| "run ic (M Dot # k) p (x # xs) cs =
     (if line_terminator x then None else run ic k (p + 1) xs cs)"
| "run ic (M Bol # k) p s cs = (if p = 0 then run ic k p s cs else None)"
| "run ic (M Eol # k) p s cs = (if s = [] then run ic k p s cs else None)"
| "run ic (M (Seq a b) # k) p s cs = run ic (M a # M b # k) p s cs"
| "run ic (M (Alt a b) # k) p s cs =
     (case run ic (M a # k) p s cs of
        Some res \<Rightarrow> Some res
      | None \<Rightarrow> run ic (M b # k) p s cs)"
| "run ic (M (Star g r) # k) p s cs =
     (if g then
        (case run ic (M r # Prog p g r # k) p s cs of
           Some res \<Rightarrow> Some res
         | None \<Rightarrow> run ic k p s cs)
      else
        (case run ic k p s cs of
           Some res \<Rightarrow> Some res
         | None \<Rightarrow> run ic (M r # Prog p g r # k) p s cs))"
| "run ic (Prog p0 g r # k) p s cs =
     (if p0 < p then run ic (M (Star g r) # k) p s cs else None)"
| "run ic (M (Grp i r) # k) p s cs = run ic (M r # Close i p s # k) p s cs"
| "run ic (Close i p0 s0 # k) p s cs = run ic k p s ((i, p - p0, s0) # cs)"
| "run ic (M (Ahead r) # k) p s cs =
     (case run ic [M r] p s cs of
        None \<Rightarrow> None
      | Some (p', s', cs') \<Rightarrow> run ic k p s cs')"
  by pat_completeness auto
termination
  by (relation "measures [\<lambda>(ic, k, p, s, cs). length s, \<lambda>(ic, k, p, s, cs). wst p k]")
     (auto simp: wst_def)

lemma run_consumes:
  "run ic k p s cs = Some (p', s', cs') \<Longrightarrow>
     p' + length s' = p + length s \<and> length s' \<le> length s"
  by (induction ic k p s cs arbitrary: p' s' cs' rule: run.induct)
     (auto split: if_splits option.splits)

text \<open>
  A match: its index, its end, the matched text, the rest of the subject after it, and
  its captures (a group that did not take part has no entry: \<open>undefined\<close>).
\<close>

datatype rmatch =
  RMatch (m_index: nat) (m_end: nat) (m_text: jstring) (m_rest: jstring) (m_caps: caps)

definition exec_at :: "bool \<Rightarrow> re \<Rightarrow> nat \<Rightarrow> jstring \<Rightarrow> rmatch option" where
  "exec_at ic r p s =
     (case run ic [M r] p s [] of
        None \<Rightarrow> None
      | Some (p', s', cs) \<Rightarrow> Some (RMatch p p' (take (p' - p) s) s' cs))"

lemma exec_at_rest:
  "exec_at ic r p s = Some m \<Longrightarrow> m_end m \<noteq> p \<Longrightarrow> length (m_rest m) < length s"
  by (auto simp: exec_at_def split: option.splits dest!: run_consumes)

text \<open>The leftmost match at or after position \<open>p\<close>: \<open>RegExp.prototype.exec\<close>.\<close>

fun search :: "bool \<Rightarrow> re \<Rightarrow> nat \<Rightarrow> jstring \<Rightarrow> rmatch option" where
  "search ic r p [] = exec_at ic r p []"
| "search ic r p (x # xs) =
     (case exec_at ic r p (x # xs) of
        Some m \<Rightarrow> Some m
      | None \<Rightarrow> search ic r (p + 1) xs)"

text \<open>\<open>s.match(r)\<close> for a pattern without the \<open>g\<close> flag.\<close>

definition str_match :: "bool \<Rightarrow> re \<Rightarrow> jstring \<Rightarrow> rmatch option" where
  "str_match ic r s = search ic r 0 s"

text \<open>
  All matches of a pattern with the \<open>g\<close> flag, left to right and without overlap; after an
  empty match the search moves on by one code unit.
\<close>

function all_matches :: "bool \<Rightarrow> re \<Rightarrow> nat \<Rightarrow> jstring \<Rightarrow> rmatch list" where
  "all_matches ic r p [] = (case exec_at ic r p [] of None \<Rightarrow> [] | Some m \<Rightarrow> [m])"
| "all_matches ic r p (x # xs) =
     (case exec_at ic r p (x # xs) of
        None \<Rightarrow> all_matches ic r (p + 1) xs
      | Some m \<Rightarrow>
          m # (if m_end m = p then all_matches ic r (p + 1) xs
               else all_matches ic r (m_end m) (m_rest m)))"
  by pat_completeness auto
termination
  by (relation "measure (\<lambda>(ic, r, p, s). length s)") (auto dest: exec_at_rest)

text \<open>\<open>s.match(r)\<close> for a pattern with the \<open>g\<close> flag: the matched texts, \<open>null\<close> when none.\<close>

definition match_g :: "bool \<Rightarrow> re \<Rightarrow> jstring \<Rightarrow> jstring list option" where
  "match_g ic r s =
     (case all_matches ic r 0 s of [] \<Rightarrow> None | m # ms \<Rightarrow> Some (map m_text (m # ms)))"

text \<open>
  \<open>s.replace(r, f)\<close> for a pattern with the \<open>g\<close> flag; \<open>f\<close> gives the replacement of a
  match.
\<close>

function replace_all :: "bool \<Rightarrow> re \<Rightarrow> (rmatch \<Rightarrow> jstring) \<Rightarrow> nat \<Rightarrow> jstring \<Rightarrow> jstring" where
  "replace_all ic r f p [] = (case exec_at ic r p [] of None \<Rightarrow> [] | Some m \<Rightarrow> f m)"
| "replace_all ic r f p (x # xs) =
     (case exec_at ic r p (x # xs) of
        None \<Rightarrow> x # replace_all ic r f (p + 1) xs
      | Some m \<Rightarrow>
          (if m_end m = p then f m @ x # replace_all ic r f (p + 1) xs
           else f m @ replace_all ic r f (m_end m) (m_rest m)))"
  by pat_completeness auto
termination
  by (relation "measure (\<lambda>(ic, r, f, p, s). length s)") (auto dest: exec_at_rest)

definition str_replace_g :: "bool \<Rightarrow> re \<Rightarrow> (rmatch \<Rightarrow> jstring) \<Rightarrow> jstring \<Rightarrow> jstring" where
  "str_replace_g ic r f s = replace_all ic r f 0 s"

text \<open>Pattern shorthands: a sequence, \<open>r+\<close>, \<open>r?\<close>, and the class \<open>\s\<close>.\<close>

definition seqs :: "re list \<Rightarrow> re" where
  "seqs rs = foldr Seq rs (Lit [])"

definition plus :: "re \<Rightarrow> re" where
  "plus r = Seq r (Star True r)"

definition opt :: "re \<Rightarrow> re" where
  "opt r = Alt r (Lit [])"

definition space :: re where
  "space = Cls False ws_ranges"

section \<open>The Text Cleaner\<close>

text \<open>
  \<^verbatim>\<open>
  function clean(s?: string | null) {
    return s
      ?.replace(/\u00a0/g, ' ')
      ?.replace(/<[^>]+>/g, '')
      ?.replace(/\s+/g, ' ')
      ?.replace(/\n{3,}/g, '\n\n')
      ?.trim() || null;
  }
  \<close>
\<close>

definition nbsp_re :: re where
  "nbsp_re = Lit [160]"

definition tag_re :: re where
  "tag_re = seqs [Lit [60], plus (Cls True [(62, 62)]), Lit [62]]"

definition spaces_re :: re where
  "spaces_re = plus space"

definition newlines_re :: re where
  "newlines_re = seqs [Lit [10], Lit [10], Lit [10], Star True (Lit [10])]"

definition clean_str :: "jstring \<Rightarrow> jstring option" where
  "clean_str s =
     (let s1 = str_replace_g False nbsp_re (\<lambda>m. [32]) s;
          s2 = str_replace_g False tag_re (\<lambda>m. []) s1;
          s3 = str_replace_g False spaces_re (\<lambda>m. [32]) s2;
          s4 = str_replace_g False newlines_re (\<lambda>m. [10, 10]) s3;
          s5 = trim s4
      in if s5 = [] then None else Some s5)"


section \<open>Values of the JavaScript runtime\<close>

text \<open>
  What \<open>JSON.parse\<close> returns, and \<open>undefined\<close>. A number is kept as its decimal
  mantissa and exponent (\<open>JNum m e\<close> is \<open>m * 10 ^ e\<close>); an object as its properties in
  enumeration order.
\<close>

datatype jsval =
    JUndefined
  | JNull
  | JBool bool
  | JNum int int
  | JStr jstring
  | JArr "jsval list"
  | JObj "(jstring \<times> jsval) list"

datatype exn = TypeError | SyntaxError | HttpError | NetworkError

text \<open>
  \<open>clean\<close> on any value the handler passes to it. The optional chain stops at
  \<open>null\<close> and \<open>undefined\<close>; any other value that is not a string has no \<open>replace\<close>
  method, and the call throws a TypeError.
\<close>

fun clean :: "jsval \<Rightarrow> exn + jstring option" where
  "clean JUndefined = Inr None"
| "clean JNull = Inr None"
| "clean (JStr s) = Inr (clean_str s)"
| "clean v = Inl TypeError"

text \<open>The value \<open>clean\<close> returns, as a value of the runtime.\<close>

fun opt_js :: "jstring option \<Rightarrow> jsval" where
  "opt_js None = JNull"
| "opt_js (Some s) = JStr s"

section \<open>JSON.parse\<close>

definition json_ws :: "nat \<Rightarrow> bool" where
  "json_ws c = (c = 9 \<or> c = 10 \<or> c = 13 \<or> c = 32)"

definition skip_ws :: "jstring \<Rightarrow> jstring" where
  "skip_ws s = dropWhile json_ws s"

definition is_digit :: "nat \<Rightarrow> bool" where
  "is_digit c = (48 \<le> c \<and> c \<le> 57)"

definition hex_value :: "nat \<Rightarrow> nat option" where
  "hex_value c =
     (if 48 \<le> c \<and> c \<le> 57 then Some (c - 48)
      else if 97 \<le> c \<and> c \<le> 102 then Some (c - 87)
      else if 65 \<le> c \<and> c \<le> 70 then Some (c - 55)
      else None)"

text \<open>The four hexadecimal digits of a \<open>\u\<close> escape, as a code unit.\<close>

fun hex4 :: "jstring \<Rightarrow> nat option" where
  "hex4 [a, b, c, d] =
     (case (hex_value a, hex_value b, hex_value c, hex_value d) of
        (Some x, Some y, Some z, Some w) \<Rightarrow> Some (((x * 16 + y) * 16 + z) * 16 + w)
      | _ \<Rightarrow> None)"
| "hex4 s = None"

definition escape_char :: "nat \<Rightarrow> nat option" where
  "escape_char e =
     (if e = 34 then Some 34
      else if e = 92 then Some 92
      else if e = 47 then Some 47
      else if e = 98 then Some 8
      else if e = 102 then Some 12
      else if e = 110 then Some 10
      else if e = 114 then Some 13
      else if e = 116 then Some 9
      else None)"

text \<open>
  A string after its opening quote: the decoded text (accumulated in reverse) and the rest
  after the closing quote.
\<close>

function json_string :: "jstring \<Rightarrow> jstring \<Rightarrow> (jstring \<times> jstring) option" where
  "json_string acc [] = None"
| "json_string acc (c # s) =
     (if c = 34 then Some (rev acc, s)
      else if c = 92 then
        (case s of
           [] \<Rightarrow> None
         | e # s' \<Rightarrow>
             if e = 117 then
               (case hex4 (take 4 s') of
                  None \<Rightarrow> None
                | Some u \<Rightarrow> json_string (u # acc) (drop 4 s'))
             else
               (case escape_char e of
                  None \<Rightarrow> None
                | Some v \<Rightarrow> json_string (v # acc) s'))
      else if c < 32 then None
      else json_string (c # acc) s)"
  by pat_completeness auto
termination
  by (relation "measure (\<lambda>(acc, s). length s)") auto

text \<open>
  A number: \<open>-?(0|[1-9][0-9]*)(\.[0-9]+)?([eE][+-]?[0-9]+)?\<close>, as mantissa and decimal
  exponent.
\<close>

definition digits_value :: "jstring \<Rightarrow> int" where
  "digits_value ds = foldl (\<lambda>a d. 10 * a + int (d - 48)) 0 ds"

definition json_int_part :: "jstring \<Rightarrow> (jstring \<times> jstring) option" where
  "json_int_part s =
     (case s of
        [] \<Rightarrow> None
      | c # r \<Rightarrow>
          if c = 48 then Some ([c], r)
          else if is_digit c then Some (takeWhile is_digit s, dropWhile is_digit s)
          else None)"

definition json_frac_part :: "jstring \<Rightarrow> (jstring \<times> jstring) option" where
  "json_frac_part s =
     (case s of
        [] \<Rightarrow> Some ([], s)
      | c # r \<Rightarrow>
          if c = 46 then
            (if takeWhile is_digit r = [] then None
             else Some (takeWhile is_digit r, dropWhile is_digit r))
          else Some ([], s))"

definition json_exp_part :: "jstring \<Rightarrow> (int \<times> jstring) option" where
  "json_exp_part s =
     (case s of
        [] \<Rightarrow> Some (0, s)
      | c # r \<Rightarrow>
          if c = 101 \<or> c = 69 then
            (let (neg, r') = (case r of
                                [] \<Rightarrow> (False, r)
                              | g # t \<Rightarrow> if g = 45 then (True, t) else if g = 43 then (False, t) else (False, r))
             in if takeWhile is_digit r' = [] then None
                else Some ((if neg then - 1 else 1) * digits_value (takeWhile is_digit r'),
                           dropWhile is_digit r'))
          else Some (0, s))"

definition json_number :: "jstring \<Rightarrow> (jsval \<times> jstring) option" where
  "json_number s =
     (let (neg, s0) = (case s of [] \<Rightarrow> (False, s) | c # r \<Rightarrow> if c = 45 then (True, r) else (False, s))
      in case json_int_part s0 of
           None \<Rightarrow> None
         | Some (ip, s1) \<Rightarrow>
             (case json_frac_part s1 of
                None \<Rightarrow> None
              | Some (fp, s2) \<Rightarrow>
                  (case json_exp_part s2 of
                     None \<Rightarrow> None
                   | Some (e, s3) \<Rightarrow>
                       Some (JNum ((if neg then - 1 else 1) * digits_value (ip @ fp))
                                  (e - int (length fp)), s3))))"


text \<open>The literals \<open>true\<close>, \<open>false\<close> and \<open>null\<close>.\<close>

definition json_literal :: "jstring \<Rightarrow> (jsval \<times> jstring) option" where
  "json_literal s =
     (if startsWith s (js ''true'') then Some (JBool True, drop 4 s)
      else if startsWith s (js ''false'') then Some (JBool False, drop 5 s)
      else if startsWith s (js ''null'') then Some (JNull, drop 4 s)
      else None)"

text \<open>
  The properties of an object in enumeration order: a key that comes twice keeps its first
  place and its last value; array indices come first, in ascending order.
\<close>

fun obj_put :: "(jstring \<times> jsval) list \<Rightarrow> jstring \<Rightarrow> jsval \<Rightarrow> (jstring \<times> jsval) list" where
  "obj_put [] k v = [(k, v)]"
| "obj_put ((k', v') # kvs) k v = (if k' = k then (k, v) # kvs else (k', v') # obj_put kvs k v)"

definition array_index :: "jstring \<Rightarrow> nat option" where
  "array_index k =
     (if k = [] \<or> \<not> list_all is_digit k \<or> (hd k = 48 \<and> length k > 1) then None
      else if nat (digits_value k) < 4294967295 then Some (nat (digits_value k)) else None)"

definition obj_order :: "(jstring \<times> jsval) list \<Rightarrow> (jstring \<times> jsval) list" where
  "obj_order kvs =
     sort_key (\<lambda>(k, v). the (array_index k)) (filter (\<lambda>(k, v). array_index k \<noteq> None) kvs)
     @ filter (\<lambda>(k, v). array_index k = None) kvs"

datatype pmode = PValue | PElems "jsval list" | PMembers "(jstring \<times> jsval) list"

lemma skip_ws_Cons: "skip_ws s = c # r \<Longrightarrow> length r < length s"
  using length_dropWhile_le [of json_ws s] by (simp add: skip_ws_def)

function parse :: "pmode \<Rightarrow> jstring \<Rightarrow> (jsval \<times> jstring) option" where
  "parse PValue s =
     (case skip_ws s of
        [] \<Rightarrow> None
      | c # r \<Rightarrow>
          if c = 123 then
            (case skip_ws r of
               [] \<Rightarrow> None
             | d # r' \<Rightarrow> if d = 125 then Some (JObj [], r') else parse (PMembers []) r)
          else if c = 91 then
            (case skip_ws r of
               [] \<Rightarrow> None
             | d # r' \<Rightarrow> if d = 93 then Some (JArr [], r') else parse (PElems []) r)
          else if c = 34 then
            (case json_string [] r of
               None \<Rightarrow> None
             | Some (t, r') \<Rightarrow> Some (JStr t, r'))
          else if c = 45 \<or> is_digit c then json_number (c # r)
          else json_literal (c # r))"
| "parse (PElems acc) s =
     (case parse PValue s of
        None \<Rightarrow> None
      | Some (v, r) \<Rightarrow>
          if length r < length s then
            (case skip_ws r of
               [] \<Rightarrow> None
             | c # r' \<Rightarrow>
                 if c = 44 then parse (PElems (acc @ [v])) r'
                 else if c = 93 then Some (JArr (acc @ [v]), r')
                 else None)
          else None)"
| "parse (PMembers acc) s =
     (case skip_ws s of
        [] \<Rightarrow> None
      | q # s1 \<Rightarrow>
          if q \<noteq> 34 then None
          else
            (case json_string [] s1 of
               None \<Rightarrow> None
             | Some (k, s2) \<Rightarrow>
                 (case skip_ws s2 of
                    [] \<Rightarrow> None
                  | c # s3 \<Rightarrow>
                      if c \<noteq> 58 \<or> \<not> length s3 < length s then None
                      else
                        (case parse PValue s3 of
                           None \<Rightarrow> None
                         | Some (v, r) \<Rightarrow>
                             if length r < length s then
                               (case skip_ws r of
                                  [] \<Rightarrow> None
                                | d # r' \<Rightarrow>
                                    if d = 44 then parse (PMembers (obj_put acc k v)) r'
                                    else if d = 125 then Some (JObj (obj_order (obj_put acc k v)), r')
                                    else None)
                             else None))))"
  by pat_completeness auto
termination
  by (relation "measures [\<lambda>(m, s). length s, \<lambda>(m, s). (case m of PValue \<Rightarrow> 0 | _ \<Rightarrow> 1)]")
     (auto dest!: skip_ws_Cons)

definition JSON_parse :: "jstring \<Rightarrow> jsval option" where
  "JSON_parse s =
     (case parse PValue s of
        None \<Rightarrow> None
      | Some (v, r) \<Rightarrow> if skip_ws r = [] then Some v else None)"


section \<open>Operations on values\<close>

text \<open>
  A number parsed from JSON is zero when its mantissa is, or when it is so small that
  the nearest double is zero: at most \<open>2 ^ -1075\<close> in absolute value.
\<close>

definition num_nonzero :: "int \<Rightarrow> int \<Rightarrow> bool" where
  "num_nonzero m e = (m \<noteq> 0 \<and> (0 \<le> e \<or> 10 ^ nat (- e) < \<bar>m\<bar> * 2 ^ 1075))"

fun truthy :: "jsval \<Rightarrow> bool" where
  "truthy JUndefined = False"
| "truthy JNull = False"
| "truthy (JBool b) = b"
| "truthy (JNum m e) = num_nonzero m e"
| "truthy (JStr s) = (s \<noteq> [])"
| "truthy (JArr xs) = True"
| "truthy (JObj kvs) = True"

text \<open>\<open>a || b\<close>\<close>

definition js_or :: "jsval \<Rightarrow> jsval \<Rightarrow> jsval" where
  "js_or a b = (if truthy a then a else b)"

text \<open>
  \<open>v?.k\<close>, for a name \<open>k\<close> that no prototype defines (every name the handlers read is
  one): the own property of an object, \<open>undefined\<close> on anything else. The handlers use
  the plain \<open>v.k\<close> only on a value just tested to be truthy, or on what \<open>JSON.parse\<close>
  returned inside a \<open>try\<close> whose \<open>catch\<close> moves on as a falsy result does; there
  \<open>v.k\<close> is \<open>v?.k\<close>.
\<close>

definition lookup :: "(jstring \<times> jsval) list \<Rightarrow> jstring \<Rightarrow> jsval" where
  "lookup kvs k = (case map_of kvs k of None \<Rightarrow> JUndefined | Some v \<Rightarrow> v)"

fun get :: "jsval \<Rightarrow> string \<Rightarrow> jsval" where
  "get (JObj kvs) k = lookup kvs (js k)"
| "get v k = JUndefined"

text \<open>
  The parts of the runtime that the model takes as parameters: the decimal form of a
  number (\<open>Number.prototype.toString\<close>, on mantissa and exponent), \<open>JSON.stringify\<close>,
  and \<open>new RegExp(source, 'g')\<close> followed by \<open>matchAll\<close> on a subject, which gives the
  index and the first group of every match, or throws a SyntaxError (\<open>None\<close>) when the
  source is not a pattern.
\<close>

record runtime =
  number_toString :: "int \<Rightarrow> int \<Rightarrow> jstring"
  json_stringify :: "jsval \<Rightarrow> jstring"
  regexp_matchAll :: "jstring \<Rightarrow> jstring \<Rightarrow> (nat \<times> jstring option) list option"

text \<open>
  ToString, as a template literal applies it. An array joins the strings of its elements
  with commas (\<open>null\<close> and \<open>undefined\<close> give the empty string). An object is
  \<open>[object Object]\<close> unless it has a property \<open>toString\<close> of its own: that property is
  not a function, nor is what \<open>valueOf\<close> returns a primitive, and the conversion throws.
\<close>

fun join_with :: "jstring \<Rightarrow> jstring list \<Rightarrow> jstring" where
  "join_with sep [] = []"
| "join_with sep [x] = x"
| "join_with sep (x # y # ys) = x @ sep @ join_with sep (y # ys)"

fun to_string :: "runtime \<Rightarrow> jsval \<Rightarrow> exn + jstring"
  and to_strings :: "runtime \<Rightarrow> jsval list \<Rightarrow> exn + jstring list" where
  "to_string rt JUndefined = Inr (js ''undefined'')"
| "to_string rt JNull = Inr (js ''null'')"
| "to_string rt (JBool b) = Inr (if b then js ''true'' else js ''false'')"
| "to_string rt (JNum m e) = Inr (number_toString rt m e)"
| "to_string rt (JStr s) = Inr s"
| "to_string rt (JArr xs) =
     (case to_strings rt xs of Inl e \<Rightarrow> Inl e | Inr ts \<Rightarrow> Inr (join_with [44] ts))"
| "to_string rt (JObj kvs) =
     (if map_of kvs (js ''toString'') \<noteq> None then Inl TypeError
      else Inr (js ''[object Object]''))"
| "to_strings rt [] = Inr []"
| "to_strings rt (x # xs) =
     (case (if x = JNull \<or> x = JUndefined then Inr [] else to_string rt x) of
        Inl e \<Rightarrow> Inl e
      | Inr t \<Rightarrow> (case to_strings rt xs of Inl e \<Rightarrow> Inl e | Inr ts \<Rightarrow> Inr (t # ts)))"


section \<open>More string operations\<close>

text \<open>The first index of \<open>t\<close> in \<open>s\<close>.\<close>

fun find_sub :: "jstring \<Rightarrow> jstring \<Rightarrow> nat option" where
  "find_sub [] t = (if t = [] then Some 0 else None)"
| "find_sub (x # s) t =
     (if startsWith (x # s) t then Some 0 else map_option Suc (find_sub s t))"

text \<open>\<open>s.indexOf(t, from)\<close>, \<open>s.lastIndexOf(t, from)\<close> and \<open>s.substring(a, b)\<close>\<close>

definition indexOf :: "jstring \<Rightarrow> jstring \<Rightarrow> nat \<Rightarrow> int" where
  "indexOf s t from =
     (case find_sub (drop from s) t of
        None \<Rightarrow> - 1
      | Some i \<Rightarrow> int (min from (length s) + i))"

definition lastIndexOf :: "jstring \<Rightarrow> jstring \<Rightarrow> nat \<Rightarrow> int" where
  "lastIndexOf s t from =
     (case filter (\<lambda>i. startsWith (drop i s) t) (rev [0 ..< Suc (min from (length s))]) of
        [] \<Rightarrow> - 1
      | i # _ \<Rightarrow> int i)"

definition substring :: "jstring \<Rightarrow> int \<Rightarrow> int \<Rightarrow> jstring" where
  "substring s a b =
     (let a' = min (nat a) (length s); b' = min (nat b) (length s)
      in take (max a' b' - min a' b') (drop (min a' b') s))"

text \<open>\<open>s.replace(t, u)\<close> for a string \<open>t\<close>: the first occurrence only.\<close>

definition replace_first :: "jstring \<Rightarrow> jstring \<Rightarrow> jstring \<Rightarrow> jstring" where
  "replace_first s t u =
     (case find_sub s t of
        None \<Rightarrow> s
      | Some i \<Rightarrow> take i s @ u @ drop (i + length t) s)"

section \<open>The patterns of the handlers\<close>

definition L :: "string \<Rightarrow> re" where
  "L s = Lit (js s)"

fun alts :: "re list \<Rightarrow> re" where
  "alts [] = Lit []"
| "alts [r] = r"
| "alts (r # rs) = Alt r (alts rs)"

text \<open>
  \<open>[\s\S]\<close>, and \<open>.\<close> under the \<open>s\<close> flag: any code unit. Then \<open>[^>]\<close>, \<open>[^<]\<close>,
  \<open>[^"]\<close>, \<open>["\']\<close>, \<open>[^"\']\<close>, \<open>[^\]]\<close>, \<open>[^=]\<close> and \<open>[0-9a-f]\<close>.
\<close>

definition any :: re where "any = Cls True []"
definition not_gt :: re where "not_gt = Cls True [(62, 62)]"
definition not_lt :: re where "not_lt = Cls True [(60, 60)]"
definition not_dq :: re where "not_dq = Cls True [(34, 34)]"
definition quote :: re where "quote = Cls False [(34, 34), (39, 39)]"
definition not_quote :: re where "not_quote = Cls True [(34, 34), (39, 39)]"
definition not_rb :: re where "not_rb = Cls True [(93, 93)]"
definition not_eq :: re where "not_eq = Cls True [(61, 61)]"
definition hex :: re where "hex = Cls False [(48, 57), (97, 102)]"

text \<open>\<open>[^"]*(?:\\.[^"]*)*\<close>: the body of a quoted string with escapes.\<close>

definition escaped_body :: re where
  "escaped_body = Seq (Star True not_dq) (Star True (seqs [Lit [92], Dot, Star True not_dq]))"

text \<open>\<open>/<script id="__NEXT_DATA__" type="application\/json">(.*?)<\/script>/\<close>\<close>

definition nextData_re :: re where
  \<open>nextData_re =
     seqs [L ''<script id="__NEXT_DATA__" type="application/json">'',
           Grp 1 (Star False Dot), L ''</script>'']\<close>

text \<open>\<open>/self\.__next_f\.push\(\[1,\s*"([^"]*(?:\\.[^"]*)*)"\]\)/\<close>\<close>

definition nextf_re :: re where
  \<open>nextf_re =
     seqs [L ''self.__next_f.push([1,'', Star True space, L ''"'', Grp 1 escaped_body,
           L ''"])'']\<close>

text \<open>
  \<open>/<script[^>]*>(.*?)<\/script>/gs\<close> and \<open>/<script[^>]*>([\s\S]*?)<\/script>/\<close>: the
  same pattern but for the \<open>g\<close> flag.
\<close>

definition script_re :: re where
  "script_re = seqs [L ''<script'', Star True not_gt, L ''>'', Grp 1 (Star False any), L ''</script>'']"

text \<open>\<open>/<meta[^>]*property=["\']og:title["\'][^>]*content=["\']([^"\']+)["\'][^>]*>/\<close>\<close>

definition ogTitle_re :: re where
  "ogTitle_re =
     seqs [L ''<meta'', Star True not_gt, L ''property='', quote, L ''og:title'', quote,
           Star True not_gt, L ''content='', quote, Grp 1 (plus not_quote), quote,
           Star True not_gt, L ''>'']"

text \<open>\<open>/<meta[^>]*name=["\']twitter:title["\'][^>]*content=["\']([^"\']+)["\'][^>]*>/\<close>\<close>

definition twitterTitle_re :: re where
  "twitterTitle_re =
     seqs [L ''<meta'', Star True not_gt, L ''name='', quote, L ''twitter:title'', quote,
           Star True not_gt, L ''content='', quote, Grp 1 (plus not_quote), quote,
           Star True not_gt, L ''>'']"

text \<open>\<open>/<title[^>]*>([^<]+)<\/title>/\<close>\<close>

definition htmlTitle_re :: re where
  "htmlTitle_re = seqs [L ''<title'', Star True not_gt, L ''>'', Grp 1 (plus not_lt), L ''</title>'']"

text \<open>
  \<open>/<meta[^>]*name=["\']description["\'][^>]*content=["\']([^"\']*by\s+([^"\']+))["\'][^>]*>/\<close>
\<close>

definition descBy_re :: re where
  "descBy_re =
     seqs [L ''<meta'', Star True not_gt, L ''name='', quote, L ''description'', quote,
           Star True not_gt, L ''content='', quote,
           Grp 1 (seqs [Star True not_quote, L ''by'', plus space, Grp 2 (plus not_quote)]),
           quote, Star True not_gt, L ''>'']"

text \<open>\<open>/<meta[^>]*name=["\']description["\'][^>]*content=["\']([^"\']*)["\'][^>]*>/\<close>\<close>

definition metaDesc_re :: re where
  "metaDesc_re =
     seqs [L ''<meta'', Star True not_gt, L ''name='', quote, L ''description'', quote,
           Star True not_gt, L ''content='', quote, Grp 1 (Star True not_quote), quote,
           Star True not_gt, L ''>'']"

text \<open>\<open>/KEY["\']?\s*:\s*["\']([^"\']+)["\']/\<close>, for \<open>prompt\<close>, \<open>lyrics\<close>, \<open>tags\<close>, \<open>style\<close>, \<open>genre\<close>\<close>

definition field_re :: "string \<Rightarrow> re" where
  "field_re key =
     seqs [L key, opt quote, Star True space, L '':'', Star True space, quote,
           Grp 1 (plus not_quote), quote]"

text \<open>\<open>/"KEY":\s*"([^"]*(?:\\.[^"]*)*)"/g\<close>\<close>

definition escaped_field_re :: "string \<Rightarrow> re" where
  \<open>escaped_field_re key =
     seqs [L ''"'', L key, L ''":'', Star True space, L ''"'', Grp 1 escaped_body, L ''"'']\<close>

text \<open>\<open>/class=["\'][^"\']*WORD[^"\']*["\'][^>]*>([^<]+)/\<close>\<close>

definition class_re :: "string \<Rightarrow> re" where
  "class_re word =
     seqs [L ''class='', quote, Star True not_quote, L word, Star True not_quote, quote,
           Star True not_gt, L ''>'', Grp 1 (plus not_lt)]"

text \<open>\<open>/data-[^=]*lyrics[^=]*=["\']([^"\']+)["\']/\<close>\<close>

definition data_lyrics_re :: re where
  "data_lyrics_re =
     seqs [L ''data-'', Star True not_eq, L ''lyrics'', Star True not_eq, L ''='', quote,
           Grp 1 (plus not_quote), quote]"

text \<open>\<open>/\[Verse[^\]]*\][\s\S]*?\[\/Verse\]/gi\<close>, and the same for \<open>Chorus\<close>\<close>

definition block_re :: "string \<Rightarrow> re" where
  "block_re name =
     seqs [L ''['', L name, Star True not_rb, L '']'', Star False any, L ''[/'', L name, L '']'']"

text \<open>\<open>(?:Verse|Chorus|Bridge|Intro|Outro)\<close>\<close>

definition section_name :: re where
  "section_name = alts [L ''Verse'', L ''Chorus'', L ''Bridge'', L ''Intro'', L ''Outro'']"

text \<open>\<open>/(?:\[Verse\]|\[Chorus\]|\[Bridge\]|\[Outro\]|\[Intro\])[\s\S]*?(?=\[|$)/gi\<close>\<close>

definition any_section_re :: re where
  "any_section_re =
     seqs [alts [L ''[Verse]'', L ''[Chorus]'', L ''[Bridge]'', L ''[Outro]'', L ''[Intro]''],
           Star False any, Ahead (Alt (L ''['') Eol)]"

text \<open>\<open>/"([^"]*\[(?:Verse|Chorus|Bridge|Intro|Outro)[^\]]*\][\s\S]*?)"/\<close>\<close>

definition quoted_block_re :: re where
  \<open>quoted_block_re =
     seqs [L ''"'',
           Grp 1 (seqs [Star True not_dq, L ''['', section_name, Star True not_rb, L '']'',
                        Star False any]),
           L ''"'']\<close>

text \<open>
  \<open>/(?:^|\n)([A-Z][^.\n]*\[(?:Verse|Chorus|Bridge|Intro|Outro)[^\]]*\][\s\S]*?)(?:\n\n|$)/\<close>
\<close>

definition plain_block_re :: re where
  "plain_block_re =
     seqs [Alt Bol (Lit [10]),
           Grp 1 (seqs [Cls False [(65, 90)], Star True (Cls True [(46, 46), (10, 10)]), L ''['',
                        section_name, Star True not_rb, L '']'', Star False any]),
           Alt (Lit [10, 10]) Eol]"

text \<open>
  \<open>/\\u[0-9a-f]{4}.*?\[(?:Verse|Chorus|Bridge|Intro|Outro)[^\]]*\][\\s\\S]*?/gi\<close>: the
  last class holds a backslash, \<open>s\<close> and \<open>S\<close>.
\<close>

definition unicode_block_re :: re where
  "unicode_block_re =
     seqs [Lit [92, 117], hex, hex, hex, hex, Star False Dot, L ''['', section_name,
           Star True not_rb, L '']'', Star False (Cls False [(92, 92), (115, 115), (83, 83)])]"

text \<open>\<open>/"[^"]*(?:\[Verse\]|\[Chorus\]|\[Bridge\]|\[Intro\]|\[Outro\])[^"]*"/gi\<close>\<close>

definition quoted_section_re :: re where
  \<open>quoted_section_re =
     seqs [L ''"'', Star True not_dq,
           alts [L ''[Verse]'', L ''[Chorus]'', L ''[Bridge]'', L ''[Intro]'', L ''[Outro]''],
           Star True not_dq, L ''"'']\<close>

text \<open>The alternation of genre names, and the pattern of up to three of them.\<close>

definition genre :: re where
  "genre =
     alts (map L [''experimental'', ''ballad'', ''ambient'', ''rock'', ''pop'', ''jazz'',
       ''classical'', ''electronic'', ''hip-hop'', ''country'', ''folk'', ''blues'', ''r&b'',
       ''reggae'', ''metal'', ''punk'', ''indie'', ''alternative'', ''dance'', ''house'',
       ''techno'', ''dubstep'', ''trap'', ''lo-fi'', ''chillout'', ''acoustic''])"

definition genres_re :: re where
  "genres_re =
     seqs [genre, Star True (Cls False ((44, 44) # ws_ranges)), genre,
           Star True (Cls False ((44, 44) # ws_ranges)), opt genre]"

text \<open>\<open>/^https?:\/\/(www\.)?suno\.com\/song\/[a-f0-9-]+$/i\<close>\<close>

definition url_re :: re where
  "url_re =
     seqs [Bol, L ''http'', opt (L ''s''), L ''://'', opt (Grp 1 (L ''www.'')),
           L ''suno.com/song/'', plus (Cls False [(97, 102), (48, 57), (45, 45)]), Eol]"

text \<open>A group of a match: \<open>None\<close> is \<open>undefined\<close>.\<close>

definition cap :: "rmatch \<Rightarrow> nat \<Rightarrow> jstring option" where
  "cap m i = (case map_of (m_caps m) i of None \<Rightarrow> None | Some (n, s0) \<Rightarrow> Some (take n s0))"

text \<open>
  What \<open>for (const x of s.match(r))\<close> runs over: with the \<open>g\<close> flag the matched texts,
  without it the first match and its groups.
\<close>

fun group_count :: "re \<Rightarrow> nat" where
  "group_count (Grp i r) = max i (group_count r)"
| "group_count (Seq a b) = max (group_count a) (group_count b)"
| "group_count (Alt a b) = max (group_count a) (group_count b)"
| "group_count (Star g r) = group_count r"
| "group_count (Ahead r) = group_count r"
| "group_count r = 0"

definition match_elements :: "bool \<Rightarrow> bool \<Rightarrow> re \<Rightarrow> jstring \<Rightarrow> jstring option list" where
  "match_elements global ic r s =
     (if global then map (\<lambda>m. Some (m_text m)) (all_matches ic r 0 s)
      else (case str_match ic r s of
              None \<Rightarrow> []
            | Some m \<Rightarrow> Some (m_text m) # map (cap m) [1 ..< Suc (group_count r)]))"


section \<open>The Embedded-Data Locator of /parse\<close>

text \<open>
  Strategy 1, the \<open>__NEXT_DATA__\<close> script. The result is \<open>songData\<close> and
  \<open>allScriptData.nextData\<close>; when \<open>JSON.parse\<close> throws, the \<open>catch\<close> leaves both as they
  were (\<open>null\<close>, and not set).
\<close>

definition legacy_strategy :: "jstring \<Rightarrow> jsval \<times> jsval" where
  "legacy_strategy html =
     (case str_match False nextData_re html of
        None \<Rightarrow> (JNull, JUndefined)
      | Some nextDataMatch \<Rightarrow>
          (case Option.bind (cap nextDataMatch 1) JSON_parse of
             None \<Rightarrow> (JNull, JUndefined)
           | Some nextData \<Rightarrow>
               (let pageProps = get (get nextData ''props'') ''pageProps''
                in (js_or (js_or (get pageProps ''song'') (get pageProps ''data'')) pageProps,
                    nextData))))"

text \<open>Strategy 2, the chunks pushed to \<open>self.__next_f\<close>.\<close>

fun findSongData :: "jsval \<Rightarrow> jsval"
  and findSongData_items :: "jsval list \<Rightarrow> jsval"
  and findSongData_props :: "(jstring \<times> jsval) list \<Rightarrow> jsval" where
  "findSongData (JObj kvs) =
     (let obj = JObj kvs in
      if truthy (get obj ''clip'') \<and> truthy (get (get obj ''clip'') ''title'')
         \<and> truthy (get (get obj ''clip'') ''metadata'')
      then get obj ''clip''
      else if truthy (get obj ''title'') \<and> truthy (get obj ''metadata'')
              \<and> (truthy (get obj ''audio_url'') \<or> truthy (get obj ''id''))
      then obj
      else findSongData_props kvs)"
| "findSongData (JArr xs) = findSongData_items xs"
| "findSongData v = JNull"
| "findSongData_items [] = JNull"
| "findSongData_items (item # xs) =
     (let found = findSongData item in if truthy found then found else findSongData_items xs)"
| "findSongData_props [] = JNull"
| "findSongData_props ((key, v) # kvs) =
     (let found = findSongData v in if truthy found then found else findSongData_props kvs)"

text \<open>\<open>.replace(/\\"/g, '"').replace(/\\\\/g, '\\')\<close>\<close>

definition unescape :: "jstring \<Rightarrow> jstring" where
  "unescape s =
     str_replace_g False (Lit [92, 92]) (\<lambda>m. [92]) (str_replace_g False (Lit [92, 34]) (\<lambda>m. [34]) s)"

text \<open>The texts \<open>"clip":\<close> and \<open>"status":"complete"\<close> that a chunk must hold.\<close>

definition clip_marker :: jstring where
  \<open>clip_marker = js ''"clip":''\<close>

definition status_marker :: jstring where
  \<open>status_marker = js ''"status":"complete"''\<close>

text \<open>
  The loop over the chunks: the song found in the first chunk that has one. Every failure
  inside the two \<open>try\<close> blocks moves on to the next chunk.
\<close>

fun streaming_loop :: "jstring list \<Rightarrow> jsval option" where
  "streaming_loop [] = None"
| "streaming_loop (match # ms) =
     (case str_match False nextf_re match of
        None \<Rightarrow> streaming_loop ms
      | Some jsonMatch \<Rightarrow>
          (case cap jsonMatch 1 of
             None \<Rightarrow> streaming_loop ms
           | Some c \<Rightarrow>
               if c = [] then streaming_loop ms
               else
                 (let unescaped = unescape c in
                  if str_includes unescaped clip_marker
                     \<and> str_includes unescaped status_marker
                  then
                    (case JSON_parse unescaped of
                       None \<Rightarrow> streaming_loop ms
                     | Some jsonData \<Rightarrow>
                         (let nestedSong = findSongData jsonData in
                          if truthy nestedSong then Some nestedSong else streaming_loop ms))
                  else streaming_loop ms)))"

definition streaming_strategy :: "jstring \<Rightarrow> jsval \<Rightarrow> jsval" where
  "streaming_strategy html sd =
     (if \<not> truthy sd then
        (case match_g False nextf_re html of
           None \<Rightarrow> sd
         | Some nextfMatches \<Rightarrow>
             (case streaming_loop nextfMatches of None \<Rightarrow> sd | Some nestedSong \<Rightarrow> nestedSong))
      else sd)"

text \<open>
  Strategy 3, every script whose trimmed content starts with a brace. In /parse this loop
  is not guarded by \<open>!songData\<close>: it runs after a strategy that found a song.
\<close>

definition allScripts :: "jstring \<Rightarrow> jstring list" where
  "allScripts html = (case match_g False script_re html of None \<Rightarrow> [] | Some ms \<Rightarrow> ms)"

fun generic_loop :: "jstring list \<Rightarrow> jsval option" where
  "generic_loop [] = None"
| "generic_loop (script # ss) =
     (case str_match False script_re script of
        None \<Rightarrow> generic_loop ss
      | Some jsonMatch \<Rightarrow>
          (case cap jsonMatch 1 of
             None \<Rightarrow> generic_loop ss
           | Some c \<Rightarrow>
               if startsWith (trim c) [123] then
                 (case JSON_parse c of
                    None \<Rightarrow> generic_loop ss
                  | Some jsonData \<Rightarrow>
                      if truthy (get jsonData ''title'') \<or> truthy (get jsonData ''display_name'')
                         \<or> truthy (get jsonData ''metadata'')
                      then Some jsonData
                      else generic_loop ss)
               else generic_loop ss))"

definition generic_strategy :: "jstring \<Rightarrow> jsval \<Rightarrow> jsval" where
  "generic_strategy html sd =
     (case generic_loop (allScripts html) of None \<Rightarrow> sd | Some jsonData \<Rightarrow> jsonData)"

text \<open>The candidate the resolver works on, and \<open>allScriptData.nextData\<close>.\<close>

definition locate :: "jstring \<Rightarrow> jsval \<times> jsval" where
  "locate html =
     (let (sd, nextData) = legacy_strategy html
      in (generic_strategy html (streaming_strategy html sd), nextData))"


section \<open>The Field Resolver of /parse\<close>

text \<open>
  \<^verbatim>\<open>
  let title = songData?.title || null;
  let artist = songData?.display_name || songData?.user?.display_name || null;
  let lyrics = songData?.metadata?.prompt || songData?.gpt_description_prompt || null;
  let styles = songData?.display_tags || songData?.metadata?.tags || null;
  \<close>
\<close>

definition candidate_title :: "jsval \<Rightarrow> jsval" where
  "candidate_title sd = js_or (get sd ''title'') JNull"

definition candidate_artist :: "jsval \<Rightarrow> jsval" where
  "candidate_artist sd =
     js_or (js_or (get sd ''display_name'') (get (get sd ''user'') ''display_name'')) JNull"

definition candidate_lyrics :: "jsval \<Rightarrow> jsval" where
  "candidate_lyrics sd =
     js_or (js_or (get (get sd ''metadata'') ''prompt'') (get sd ''gpt_description_prompt'')) JNull"

definition candidate_styles :: "jsval \<Rightarrow> jsval" where
  "candidate_styles sd =
     js_or (js_or (get sd ''display_tags'') (get (get sd ''metadata'') ''tags'')) JNull"

text \<open>
  \<^verbatim>\<open>
  if (!styles && songData?.metadata?.negative_tags) {
    const negTags = songData.metadata.negative_tags;
    styles = `NOT: ${negTags}`;
  }
  \<close>
\<close>

definition negative_styles :: "runtime \<Rightarrow> jsval \<Rightarrow> jsval \<Rightarrow> exn + jsval" where
  "negative_styles rt sd st =
     (let negTags = get (get sd ''metadata'') ''negative_tags'' in
      if \<not> truthy st \<and> truthy negTags then
        (case to_string rt negTags of
           Inl e \<Rightarrow> Inl e
         | Inr t \<Rightarrow> Inr (JStr (js ''NOT: '' @ t)))
      else Inr st)"

text \<open>
  \<^verbatim>\<open>
  if ((allScriptData as any).nextData?.props?.pageProps) {
    const props = (allScriptData as any).nextData.props.pageProps;
    if (props.song) {
      lyrics = lyrics || props.song.metadata?.prompt || props.song.gpt_description_prompt;
      styles = styles || props.song.metadata?.tags;
    }
  }
  \<close>
\<close>

definition nextData_lyrics :: "jsval \<Rightarrow> jsval \<Rightarrow> jsval" where
  "nextData_lyrics nextData lyr =
     (let props = get (get nextData ''props'') ''pageProps'' in
      if truthy props \<and> truthy (get props ''song'') then
        js_or (js_or lyr (get (get (get props ''song'') ''metadata'') ''prompt''))
              (get (get props ''song'') ''gpt_description_prompt'')
      else lyr)"

definition nextData_styles :: "jsval \<Rightarrow> jsval \<Rightarrow> jsval" where
  "nextData_styles nextData st =
     (let props = get (get nextData ''props'') ''pageProps'' in
      if truthy props \<and> truthy (get props ''song'') then
        js_or st (get (get (get props ''song'') ''metadata'') ''tags'')
      else st)"

text \<open>
  \<open>.replace(/\\n/g, '\n').replace(/\\"/g, '"').replace(/\\u([0-9a-f]{4})/gi, ...).trim()\<close>:
  the last replacement puts the code unit with the four hexadecimal digits.
\<close>

definition unicode_escape_re :: re where
  "unicode_escape_re = seqs [Lit [92, 117], Grp 1 (seqs [hex, hex, hex, hex])]"

definition fromCharCode :: "rmatch \<Rightarrow> jstring" where
  "fromCharCode m =
     (case Option.bind (cap m 1) hex4 of None \<Rightarrow> [] | Some u \<Rightarrow> [u])"

definition decode_text :: "jstring \<Rightarrow> jstring" where
  "decode_text t =
     trim (str_replace_g True unicode_escape_re fromCharCode
            (str_replace_g False (Lit [92, 34]) (\<lambda>m. [34])
              (str_replace_g False (Lit [92, 110]) (\<lambda>m. [10]) t)))"

text \<open>
  The reference of a prompt to a streamed chunk. The source of the pattern is
  \<open>"ID:T[a-f0-9]+,([\s\S]*?)(?="]|$)\<close>, with the text after the dollar sign for \<open>ID\<close>.
\<close>

definition prompt_pattern :: "jstring \<Rightarrow> jstring" where
  \<open>prompt_pattern promptId =
     [34] @ promptId @ js '':T[a-f0-9]+,(['' @ [92] @ js ''s'' @ [92] @ js ''S]*?)(?="]|$)''\<close>

definition clip_key :: jstring where
  \<open>clip_key = js ''"clip"''\<close>

fun prompt_loop :: "jstring \<Rightarrow> (nat \<times> jstring option) list \<Rightarrow> jstring option" where
  "prompt_loop html [] = None"
| "prompt_loop html ((index, None) # ms) = prompt_loop html ms"
| "prompt_loop html ((index, Some content) # ms) =
     (if content = [] then prompt_loop html ms
      else
        (let matchStart = lastIndexOf html (js ''self.__next_f.push'') index;
             matchEnd = indexOf html (js ''])'') index + 2;
             fullChunk = substring html matchStart matchEnd
         in if \<not> str_includes fullChunk clip_key \<and> length content > 20
            then Some (decode_text content)
            else prompt_loop html ms))"

definition prompt_reference :: "runtime \<Rightarrow> jstring \<Rightarrow> jsval \<Rightarrow> jsval \<Rightarrow> exn + jsval" where
  "prompt_reference rt html sd lyr =
     (let promptRef = get (get sd ''metadata'') ''prompt'' in
      if \<not> truthy lyr \<and> truthy promptRef then
        (case promptRef of
           JStr p \<Rightarrow>
             if startsWith p [36] then
               (case regexp_matchAll rt (prompt_pattern (tl p)) html of
                  None \<Rightarrow> Inl SyntaxError
                | Some allMatches \<Rightarrow>
                    Inr (case prompt_loop html allMatches of None \<Rightarrow> lyr | Some t \<Rightarrow> JStr t))
             else Inr lyr
         | _ \<Rightarrow> Inr lyr)
      else Inr lyr)"

text \<open>The fallback scans of the markup, each run only when its field is still falsy.\<close>

definition first_group :: "re \<Rightarrow> jstring \<Rightarrow> jsval" where
  "first_group r html =
     (case str_match False r html of
        None \<Rightarrow> JNull
      | Some m \<Rightarrow> (case cap m 1 of None \<Rightarrow> JUndefined | Some t \<Rightarrow> JStr t))"

definition fallback_title :: "jstring \<Rightarrow> jsval \<Rightarrow> jsval" where
  "fallback_title html t =
     (if \<not> truthy t then
        js_or (js_or (js_or (first_group ogTitle_re html) (first_group twitterTitle_re html))
                 (case str_match False htmlTitle_re html of
                    None \<Rightarrow> JNull
                  | Some htmlTitle \<Rightarrow>
                      (case cap htmlTitle 1 of
                         None \<Rightarrow> JUndefined
                       | Some c \<Rightarrow> JStr (trim (replace_first c (js '' | Suno'') [])))))
          JNull
      else t)"

definition fallback_artist :: "jstring \<Rightarrow> jsval \<Rightarrow> jsval" where
  "fallback_artist html a =
     (if \<not> truthy a then
        (case str_match False descBy_re html of
           None \<Rightarrow> a
         | Some descMatch \<Rightarrow>
             (case cap descMatch 2 of
                None \<Rightarrow> a
              | Some c \<Rightarrow> if c = [] then a else JStr (trim c)))
      else a)"

definition lyrics_patterns :: "(bool \<times> bool \<times> re) list" where
  "lyrics_patterns =
     [(False, False, field_re ''prompt''),
      (False, False, field_re ''lyrics''),
      (True, False, escaped_field_re ''gpt_description_prompt''),
      (False, False, class_re ''lyrics''),
      (False, False, data_lyrics_re),
      (True, False, escaped_field_re ''prompt''),
      (True, True, block_re ''Verse''),
      (True, True, block_re ''Chorus''),
      (True, True, any_section_re),
      (False, False, quoted_block_re),
      (False, False, plain_block_re),
      (True, True, unicode_block_re),
      (True, True, quoted_section_re)]"

definition looks_like_lyrics :: "jstring \<Rightarrow> bool" where
  "looks_like_lyrics t =
     (t \<noteq> [] \<and> length t > 20
      \<and> (str_includes t (js ''[Verse'') \<or> str_includes t (js ''[Chorus'')
           \<or> str_includes t [92, 110] \<or> length (filter (\<lambda>c. c = 10) t) + 1 > 2))"

fun first_lyrics :: "jstring option list \<Rightarrow> jstring option" where
  "first_lyrics [] = None"
| "first_lyrics (None # ms) = first_lyrics ms"
| "first_lyrics (Some lyricText # ms) =
     (if looks_like_lyrics lyricText then Some (decode_text lyricText) else first_lyrics ms)"

fun scan_lyrics :: "(bool \<times> bool \<times> re) list \<Rightarrow> jstring \<Rightarrow> jsval \<Rightarrow> jsval" where
  "scan_lyrics [] html lyr = lyr"
| "scan_lyrics ((global, ic, pattern) # ps) html lyr =
     (let matches = match_elements global ic pattern html in
      if matches = [] then scan_lyrics ps html lyr
      else
        (let lyr' = (case first_lyrics matches of None \<Rightarrow> lyr | Some t \<Rightarrow> JStr t)
         in if truthy lyr' then lyr' else scan_lyrics ps html lyr'))"

definition fallback_lyrics :: "jstring \<Rightarrow> jsval \<Rightarrow> jsval" where
  "fallback_lyrics html lyr = (if \<not> truthy lyr then scan_lyrics lyrics_patterns html lyr else lyr)"

definition styles_patterns :: "(bool \<times> bool \<times> re) list" where
  "styles_patterns =
     [(False, False, field_re ''tags''),
      (False, False, field_re ''style''),
      (False, False, field_re ''genre''),
      (False, False, class_re ''style''),
      (False, False, class_re ''tag''),
      (True, False, escaped_field_re ''tags''),
      (True, False, escaped_field_re ''style''),
      (True, False, escaped_field_re ''genre''),
      (True, True, genres_re)]"

fun first_style :: "jstring option list \<Rightarrow> jstring option" where
  "first_style [] = None"
| "first_style (None # ms) = first_style ms"
| "first_style (Some styleText # ms) =
     (if styleText \<noteq> [] \<and> length styleText > 2
      then Some (trim (str_replace_g False (Lit [92, 34]) (\<lambda>m. [34]) styleText))
      else first_style ms)"

fun scan_styles :: "(bool \<times> bool \<times> re) list \<Rightarrow> jstring \<Rightarrow> jsval \<Rightarrow> jsval" where
  "scan_styles [] html st = st"
| "scan_styles ((global, ic, pattern) # ps) html st =
     (let matches = match_elements global ic pattern html in
      if matches = [] then scan_styles ps html st
      else
        (let st' = (case first_style matches of None \<Rightarrow> st | Some t \<Rightarrow> JStr t)
         in if truthy st' then st' else scan_styles ps html st'))"

definition meta_genre :: "jstring \<Rightarrow> jsval \<Rightarrow> jsval" where
  "meta_genre html st =
     (if \<not> truthy st then
        (case str_match False metaDesc_re html of
           None \<Rightarrow> st
         | Some metaDesc \<Rightarrow>
             (case cap metaDesc 1 of
                None \<Rightarrow> st
              | Some c \<Rightarrow>
                  if c = [] then st
                  else (case str_match True (Grp 1 genre) c of
                          None \<Rightarrow> st
                        | Some genreMatch \<Rightarrow>
                            (case cap genreMatch 1 of None \<Rightarrow> JUndefined | Some g \<Rightarrow> JStr g))))
      else st)"

definition fallback_styles :: "jstring \<Rightarrow> jsval \<Rightarrow> jsval" where
  "fallback_styles html st =
     (if \<not> truthy st then meta_genre html (scan_styles styles_patterns html st) else st)"

text \<open>
  The resolver: title, artist, lyrics and styles as the handler holds them before
  cleaning, or the exception thrown on the way.
\<close>

definition resolve :: "runtime \<Rightarrow> jstring \<Rightarrow> jsval \<Rightarrow> jsval \<Rightarrow> exn + (jsval \<times> jsval \<times> jsval \<times> jsval)" where
  "resolve rt html sd nextData =
     (case negative_styles rt sd (candidate_styles sd) of
        Inl e \<Rightarrow> Inl e
      | Inr st \<Rightarrow>
          (case prompt_reference rt html sd (nextData_lyrics nextData (candidate_lyrics sd)) of
             Inl e \<Rightarrow> Inl e
           | Inr lyr \<Rightarrow>
               Inr (fallback_title html (candidate_title sd),
                    fallback_artist html (candidate_artist sd),
                    fallback_lyrics html lyr,
                    fallback_styles html (nextData_styles nextData st))))"

section \<open>The Response Assembler and the handler of /parse\<close>

record response =
  url :: jstring
  title :: "jstring option"
  artist :: "jstring option"
  lyrics :: "jstring option"
  styles :: "jstring option"
  audio_url :: jsval
  transcription_note :: "jstring option"
  rawHtmlSnippet :: jstring
  songData :: "jstring option"
  hasNextData :: bool
  scriptCount :: nat
  htmlLength :: nat
  found_title :: bool
  found_artist :: bool
  found_lyrics :: bool
  found_styles :: bool
  found_audio_url :: bool

definition note_text :: jstring where
  "note_text = js ''For accurate lyrics, consider using an LLM with audio transcription capabilities on the audio_url''"

text \<open>
  The argument of \<open>reply.send\<close>. Its four calls of \<open>clean\<close> are evaluated in the order of
  the fields, and the first that throws ends the handler.
\<close>

definition assemble ::
  "runtime \<Rightarrow> jstring \<Rightarrow> jstring \<Rightarrow> jsval \<Rightarrow> jsval \<times> jsval \<times> jsval \<times> jsval \<Rightarrow> exn + response" where
  "assemble rt u html sd fs =
     (case fs of (t, a, l, s) \<Rightarrow>
        (let audioUrl = js_or (get sd ''audio_url'') JNull in
         case clean t of Inl e \<Rightarrow> Inl e | Inr ct \<Rightarrow>
         (case clean a of Inl e \<Rightarrow> Inl e | Inr ca \<Rightarrow>
         (case clean l of Inl e \<Rightarrow> Inl e | Inr cl \<Rightarrow>
         (case clean s of Inl e \<Rightarrow> Inl e | Inr cs \<Rightarrow>
            Inr \<lparr> url = u, title = ct, artist = ca, lyrics = cl, styles = cs,
                  audio_url = audioUrl,
                  transcription_note = (if truthy audioUrl then Some note_text else None),
                  rawHtmlSnippet = take 2000 html,
                  songData = (if truthy sd then Some (take 500 (json_stringify rt sd)) else None),
                  hasNextData = (str_match False nextData_re html \<noteq> None),
                  scriptCount = length (allScripts html),
                  htmlLength = length html,
                  found_title = truthy t, found_artist = truthy a, found_lyrics = truthy l,
                  found_styles = truthy s, found_audio_url = truthy audioUrl \<rparr>)))))"

text \<open>Everything the handler of /parse does with the text of the page.\<close>

definition parse_page :: "runtime \<Rightarrow> jstring \<Rightarrow> jstring \<Rightarrow> exn + response" where
  "parse_page rt u html =
     (case locate html of (sd, nextData) \<Rightarrow>
        (case resolve rt html sd nextData of
           Inl e \<Rightarrow> Inl e
         | Inr fs \<Rightarrow> assemble rt u html sd fs))"

text \<open>
  The handler: the check of the URL, the fetch (which fails, or answers with a status that
  is 2xx or not, and a body), the extraction. Any exception inside the \<open>try\<close> is answered
  with status 500, "Failed to fetch or parse page".
\<close>

datatype fetched = FetchFailed | HttpResponse bool jstring

datatype 'a reply = Ok200 'a | BadRequest400 | NotFound404 | Failed500 exn

definition valid_url :: "jstring \<Rightarrow> bool" where
  "valid_url u = (u \<noteq> [] \<and> str_match True url_re u \<noteq> None)"

definition parse_handler :: "runtime \<Rightarrow> jstring \<Rightarrow> fetched \<Rightarrow> response reply" where
  "parse_handler rt u f =
     (if \<not> valid_url u then BadRequest400
      else (case f of
              FetchFailed \<Rightarrow> Failed500 NetworkError
            | HttpResponse ok html \<Rightarrow>
                if \<not> ok then Failed500 HttpError
                else (case parse_page rt u html of
                        Inl e \<Rightarrow> Failed500 e
                      | Inr r \<Rightarrow> Ok200 r)))"


section \<open>The handler of /extract\<close>

text \<open>
  The strict mode: the \<open>__NEXT_DATA__\<close> script, then (guarded by \<open>!songData\<close> here) the
  scripts that start with a brace; no scan of the markup.
\<close>

definition extract_locate :: "jstring \<Rightarrow> jsval \<times> jsval" where
  "extract_locate html =
     (case (case str_match False nextData_re html of
              None \<Rightarrow> (JNull, JNull)
            | Some nextDataMatch \<Rightarrow>
                (case Option.bind (cap nextDataMatch 1) JSON_parse of
                   None \<Rightarrow> (JNull, JNull)
                 | Some nextData \<Rightarrow>
                     (let pageProps = get (get nextData ''props'') ''pageProps''
                      in (js_or (js_or (get pageProps ''song'') (get pageProps ''data'')) pageProps,
                          nextData)))) of
        (sd, nextData) \<Rightarrow>
          (if \<not> truthy sd
           then (case generic_loop (allScripts html) of None \<Rightarrow> sd | Some jsonData \<Rightarrow> jsonData)
           else sd,
           nextData))"

text \<open>An object literal, and the object of the named properties of a value.\<close>

definition obj :: "(string \<times> jsval) list \<Rightarrow> jsval" where
  "obj kvs = JObj (map (\<lambda>(k, v). (js k, v)) kvs)"

definition pick :: "jsval \<Rightarrow> string list \<Rightarrow> jsval" where
  "pick v ks = obj (map (\<lambda>k. (k, get v k)) ks)"

text \<open>\<open>organizedData\<close>; \<open>now\<close> is \<open>new Date().toISOString()\<close>.\<close>

definition organizedData :: "jstring \<Rightarrow> jstring \<Rightarrow> jsval \<Rightarrow> jsval" where
  "organizedData now u nextData =
     (let pageProps = get (get nextData ''props'') ''pageProps'';
          song = js_or (get pageProps ''song'') (get pageProps ''data'')
      in obj
        [(''url'', JStr u),
         (''extraction_timestamp'', JStr now),
         (''song_info'', pick song [''id'', ''title'', ''display_name'', ''created_at'', ''status'',
            ''model_name'', ''gpt_description_prompt'']),
         (''user_info'', pick (get song ''user'') [''id'', ''display_name'', ''handle'',
            ''avatar_image_url'', ''is_verified'']),
         (''media'', pick song [''audio_url'', ''video_url'', ''image_url'', ''image_large_url'']),
         (''metadata'', pick (get song ''metadata'') [''prompt'', ''gpt_description_prompt'',
            ''audio_prompt_id'', ''history'', ''concat_history'', ''type'', ''duration'',
            ''refund_credits'', ''stream'', ''error_type'', ''error_message'', ''tags'']),
         (''engagement'', pick song [''play_count'', ''upvote_count'', ''is_liked'', ''reaction'']),
         (''technical'', pick song [''duration'', ''is_trashed'', ''is_public'', ''stem_from_id'',
            ''infill_start_s'', ''infill_end_s'']),
         (''raw_next_data'', pick nextData [''props'', ''page'', ''query'', ''buildId'',
            ''isFallback'', ''gssp'']),
         (''full_song_data'', song)])"

text \<open>What the handler answers for the text of a page: \<open>None\<close> is the status 404.\<close>

definition extract_page :: "jstring \<Rightarrow> jstring \<Rightarrow> jstring \<Rightarrow> jsval option" where
  "extract_page now u html =
     (case extract_locate html of (sd, nextData) \<Rightarrow>
        if \<not> truthy sd \<and> \<not> truthy nextData then None
        else Some (organizedData now u nextData))"

definition extract_handler :: "jstring \<Rightarrow> jstring \<Rightarrow> fetched \<Rightarrow> jsval reply" where
  "extract_handler now u f =
     (if \<not> valid_url u then BadRequest400
      else (case f of
              FetchFailed \<Rightarrow> Failed500 NetworkError
            | HttpResponse ok html \<Rightarrow>
                if \<not> ok then Failed500 HttpError
                else (case extract_page now u html of
                        None \<Rightarrow> NotFound404
                      | Some r \<Rightarrow> Ok200 r)))"

section \<open>The cleaner, pattern by pattern\<close>

text \<open>
  Each of the four replacements of \<open>clean\<close> is characterised by a function that is
  recursive on the string: the matcher is run once and for all.
\<close>


lemma exec_nbsp_nil: "exec_at False nbsp_re p [] = None"
  by (simp add: exec_at_def nbsp_re_def)

lemma exec_nbsp_cons:
  "exec_at False nbsp_re p (x # xs) = (if x = 160 then Some (RMatch p (p + 1) [x] xs []) else None)"
  by (simp add: exec_at_def nbsp_re_def canon_def)

lemma replace_nbsp:
  "replace_all False nbsp_re (\<lambda>m. [32]) p s = map (\<lambda>c. if c = 160 then 32 else c) s"
  by (induction s arbitrary: p) (simp_all add: exec_nbsp_nil exec_nbsp_cons)


lemma run_star_cls_nil:
  "run ic (M (Star True (Cls n rs)) # k) p [] cs = run ic k p [] cs"
  by (subst run.simps(13)) (simp del: run.simps(13))

lemma run_star_cls_hit:
  "cls_match ic n rs x \<Longrightarrow>
   run ic (M (Star True (Cls n rs)) # k) p (x # xs) cs =
     (case run ic (M (Star True (Cls n rs)) # k) (p + 1) xs cs of
        Some res \<Rightarrow> Some res
      | None \<Rightarrow> run ic k p (x # xs) cs)"
  by (subst run.simps(13)) (simp del: run.simps(13))

lemma run_star_cls_miss:
  "\<not> cls_match ic n rs x \<Longrightarrow>
   run ic (M (Star True (Cls n rs)) # k) p (x # xs) cs = run ic k p (x # xs) cs"
  by (subst run.simps(13)) (simp del: run.simps(13))

lemmas run_star_cls = run_star_cls_nil run_star_cls_hit run_star_cls_miss

lemma cls_not_gt: "cls_match False True [(62, 62)] c = (c \<noteq> 62)"
  by (auto simp: cls_match_def in_ranges_def)

fun after_gt :: "jstring \<Rightarrow> jstring option" where
  "after_gt [] = None"
| "after_gt (x # xs) = (if x = 62 then Some xs else after_gt xs)"

lemma after_gt_shorter: "after_gt s = Some r \<Longrightarrow> length r < length s"
  by (induction s) (auto split: if_splits)

lemma run_tag_loop:
  "run False [M (Star True (Cls True [(62, 62)])), M (Seq (Lit [62]) (Lit []))] p s cs =
     (case after_gt s of
        None \<Rightarrow> None
      | Some r \<Rightarrow> Some (p + (length s - length r), r, cs))"
proof (induction s arbitrary: p)
  case Nil
  then show ?case by (simp add: run_star_cls del: run.simps(13))
next
  case (Cons x xs)
  show ?case
  proof (cases "x = 62")
    case True
    then show ?thesis by (simp add: run_star_cls cls_not_gt canon_def del: run.simps(13))
  next
    case False
    then show ?thesis
      by (auto simp: run_star_cls cls_not_gt canon_def Cons.IH Suc_diff_le
               simp del: run.simps(13) split: option.splits dest!: after_gt_shorter)
  qed
qed

lemma is_ws_cls: "cls_match False False ws_ranges c = is_ws c"
  by (simp add: cls_match_def is_ws_def)

lemma run_space_loop:
  "run False [M (Star True (Cls False ws_ranges))] p s cs =
     Some (p + length (takeWhile is_ws s), dropWhile is_ws s, cs)"
proof (induction s arbitrary: p)
  case Nil
  then show ?case by (simp add: run_star_cls del: run.simps(13))
next
  case (Cons x xs)
  then show ?case
    by (simp add: run_star_cls is_ws_cls del: run.simps(13))
qed

definition tag_close :: "jstring \<Rightarrow> jstring option" where
  "tag_close xs =
     (case xs of [] \<Rightarrow> None | y # ys \<Rightarrow> if y = 62 then None else after_gt ys)"

lemma tag_close_shorter: "tag_close xs = Some r \<Longrightarrow> length r < length xs"
  by (auto simp: tag_close_def split: list.splits if_splits dest!: after_gt_shorter)

lemma exec_tag_nil: "exec_at False tag_re p [] = None"
  by (simp add: exec_at_def tag_re_def seqs_def plus_def)

lemma exec_tag_cons:
  "exec_at False tag_re p (x # xs) =
     (if x = 60 then
        (case tag_close xs of
           None \<Rightarrow> None
         | Some r \<Rightarrow> Some (RMatch p (p + (length (x # xs) - length r)) (take (length (x # xs) - length r) (x # xs)) r []))
      else None)"
proof (cases xs)
  case Nil
  then show ?thesis
    by (simp add: exec_at_def tag_re_def seqs_def plus_def canon_def tag_close_def del: run.simps(13))
next
  case (Cons y ys)
  then show ?thesis
    by (auto simp: exec_at_def tag_re_def seqs_def plus_def canon_def tag_close_def cls_not_gt
          run_tag_loop Suc_diff_le
        simp del: run.simps(13) split: option.splits dest!: after_gt_shorter)
qed


function strip_spec :: "jstring \<Rightarrow> jstring" where
  "strip_spec [] = []"
| "strip_spec (x # xs) =
     (if x = 60 then
        (case tag_close xs of Some r \<Rightarrow> strip_spec r | None \<Rightarrow> x # strip_spec xs)
      else x # strip_spec xs)"
  by pat_completeness auto
termination
  by (relation "measure length") (auto dest: tag_close_shorter)

lemma replace_tag: "replace_all False tag_re (\<lambda>m. []) p s = strip_spec s"
proof (induction s arbitrary: p rule: strip_spec.induct)
  case 1
  then show ?case by (simp add: exec_tag_nil)
next
  case (2 x xs)
  show ?case
  proof (cases "x = 60")
    case False
    with 2 show ?thesis by (simp add: exec_tag_cons)
  next
    case True
    show ?thesis
    proof (cases "tag_close xs")
      case None
      with True 2 show ?thesis by (simp add: exec_tag_cons)
    next
      case (Some r)
      then have "length r < length xs" by (rule tag_close_shorter)
      then have "Suc (p + length xs) - length r \<noteq> p" by arith
      with True Some 2 \<open>length r < length xs\<close> show ?thesis by (simp add: exec_tag_cons)
    qed
  qed
qed

function collapse_spec :: "jstring \<Rightarrow> jstring" where
  "collapse_spec [] = []"
| "collapse_spec (x # xs) =
     (if is_ws x then 32 # collapse_spec (dropWhile is_ws xs) else x # collapse_spec xs)"
  by pat_completeness auto
termination
  by (relation "measure length") (auto simp: le_imp_less_Suc length_dropWhile_le)

lemma exec_spaces_nil: "exec_at False spaces_re p [] = None"
  by (simp add: exec_at_def spaces_re_def plus_def space_def)

lemma exec_spaces_cons:
  "exec_at False spaces_re p (x # xs) =
     (if is_ws x then
        Some (RMatch p (p + 1 + length (takeWhile is_ws xs))
                (take (1 + length (takeWhile is_ws xs)) (x # xs)) (dropWhile is_ws xs) [])
      else None)"
  by (simp add: exec_at_def spaces_re_def plus_def space_def is_ws_cls run_space_loop
           del: run.simps(13))

lemma replace_spaces: "replace_all False spaces_re (\<lambda>m. [32]) p s = collapse_spec s"
  by (induction s arbitrary: p rule: collapse_spec.induct)
     (simp_all add: exec_spaces_nil exec_spaces_cons)

lemma exec_newlines:
  "exec_at False newlines_re p [] = None"
  "x \<noteq> 10 \<Longrightarrow> exec_at False newlines_re p (x # xs) = None"
  by (simp_all add: exec_at_def newlines_re_def seqs_def canon_def)

lemma replace_newlines: "10 \<notin> set s \<Longrightarrow> replace_all False newlines_re f p s = s"
  by (induction s arbitrary: p) (simp_all add: exec_newlines)



lemma after_gt_None: "after_gt s = None \<longleftrightarrow> 62 \<notin> set s"
  by (induction s) auto

lemma tag_close_None:
  "tag_close xs = None \<longleftrightarrow> xs = [] \<or> hd xs = 62 \<or> 62 \<notin> set (tl xs)"
  by (cases xs) (auto simp: tag_close_def after_gt_None)

fun notag :: "jstring \<Rightarrow> bool" where
  "notag [] = True"
| "notag (x # xs) = ((x = 60 \<longrightarrow> tag_close xs = None) \<and> notag xs)"

lemma after_gt_set: "after_gt s = Some r \<Longrightarrow> set r \<subseteq> set s"
  by (induction s) (auto split: if_splits)

lemma tag_close_set: "tag_close xs = Some r \<Longrightarrow> set r \<subseteq> set xs"
  by (cases xs) (auto simp: tag_close_def split: if_splits dest: after_gt_set)

lemma set_strip_spec: "set (strip_spec s) \<subseteq> set s"
proof (induction s rule: strip_spec.induct)
  case 1
  then show ?case by simp
next
  case (2 x xs)
  show ?case
  proof (cases "x = 60")
    case False
    with 2 show ?thesis by auto
  next
    case True
    show ?thesis
    proof (cases "tag_close xs")
      case None
      with True 2 show ?thesis by auto
    next
      case (Some r)
      with True 2 have "set (strip_spec r) \<subseteq> set r" by simp
      moreover have "set r \<subseteq> set xs" using Some by (rule tag_close_set)
      ultimately show ?thesis using True Some by auto
    qed
  qed
qed


lemma is_ws_simps: "is_ws 32" "is_ws 10" "is_ws 160" "\<not> is_ws 60" "\<not> is_ws 62"
  by (simp_all add: is_ws_def in_ranges_def ws_ranges_def)

lemma tag_close_no_gt: "62 \<notin> set zs \<Longrightarrow> tag_close zs = None"
  by (cases zs) (auto simp: tag_close_None)

lemma tag_close_strip: "tag_close xs = None \<Longrightarrow> tag_close (strip_spec xs) = None"
proof (cases xs)
  case Nil
  then show ?thesis by (simp add: tag_close_def)
next
  case (Cons y ys)
  assume n: "tag_close xs = None"
  show ?thesis
  proof (cases "y = 62")
    case True
    with Cons show ?thesis by (simp add: tag_close_None)
  next
    case False
    with n Cons have "62 \<notin> set xs" by (simp add: tag_close_None)
    with set_strip_spec [of xs] have "62 \<notin> set (strip_spec xs)" by blast
    then show ?thesis by (rule tag_close_no_gt)
  qed
qed

lemma notag_strip: "notag (strip_spec s)"
  by (induction s rule: strip_spec.induct) (auto simp: tag_close_strip split: option.splits)

lemma strip_notag: "notag s \<Longrightarrow> strip_spec s = s"
  by (induction s rule: strip_spec.induct) auto

lemma set_collapse_spec: "set (collapse_spec s) \<subseteq> insert 32 (set s)"
proof (induction s rule: collapse_spec.induct)
  case 1
  then show ?case by simp
next
  case (2 x xs)
  have "set (dropWhile is_ws xs) \<subseteq> set xs" by (rule set_dropWhileD [THEN subsetI])
  with 2 show ?case by (cases "is_ws x") auto
qed

lemma tag_close_collapse: "tag_close xs = None \<Longrightarrow> tag_close (collapse_spec xs) = None"
proof (cases xs)
  case Nil
  then show ?thesis by (simp add: tag_close_def)
next
  case (Cons y ys)
  assume n: "tag_close xs = None"
  show ?thesis
  proof (cases "y = 62")
    case True
    with Cons show ?thesis by (simp add: tag_close_None is_ws_simps)
  next
    case False
    with n Cons have "62 \<notin> set xs" by (simp add: tag_close_None)
    with set_collapse_spec [of xs] have "62 \<notin> set (collapse_spec xs)" by auto
    then show ?thesis by (rule tag_close_no_gt)
  qed
qed

lemma notag_dropWhile: "notag s \<Longrightarrow> notag (dropWhile P s)"
  by (induction s) auto

lemma notag_drop: "notag s \<Longrightarrow> notag (drop n s)"
  by (induction s arbitrary: n) (auto simp: drop_Cons split: nat.splits)

lemma notag_collapse: "notag s \<Longrightarrow> notag (collapse_spec s)"
  by (induction s rule: collapse_spec.induct)
     (auto simp: notag_dropWhile tag_close_collapse is_ws_simps)

lemma tag_close_take: "tag_close xs = None \<Longrightarrow> tag_close (take n xs) = None"
proof -
  assume n: "tag_close xs = None"
  have "set (tl (take n xs)) \<subseteq> set (tl xs)"
    by (cases xs; cases n) (auto dest: in_set_takeD)
  moreover have "take n xs \<noteq> [] \<Longrightarrow> hd (take n xs) = hd xs"
    by (cases xs; cases n) auto
  ultimately show ?thesis using n by (auto simp: tag_close_None)
qed

lemma notag_take: "notag s \<Longrightarrow> notag (take n s)"
  by (induction s arbitrary: n) (auto simp: take_Cons tag_close_take split: nat.splits)

fun wsnorm :: "jstring \<Rightarrow> bool" where
  "wsnorm [] = True"
| "wsnorm (x # xs) = ((is_ws x \<longrightarrow> x = 32 \<and> (xs = [] \<or> \<not> is_ws (hd xs))) \<and> wsnorm xs)"

lemma hd_collapse_spec:
  "s \<noteq> [] \<Longrightarrow> \<not> is_ws (hd s) \<Longrightarrow> collapse_spec s \<noteq> [] \<and> hd (collapse_spec s) = hd s"
  by (cases s) auto

lemma wsnorm_collapse: "wsnorm (collapse_spec s)"
proof (induction s rule: collapse_spec.induct)
  case 1
  then show ?case by simp
next
  case (2 x xs)
  show ?case
  proof (cases "is_ws x")
    case False
    with 2 show ?thesis by simp
  next
    case True
    have "collapse_spec (dropWhile is_ws xs) = [] \<or> \<not> is_ws (hd (collapse_spec (dropWhile is_ws xs)))"
    proof (cases "dropWhile is_ws xs = []")
      case True
      then have "collapse_spec (dropWhile is_ws xs) = []" by (simp only: collapse_spec.simps)
      then show ?thesis by blast
    next
      case False
      then have "\<not> is_ws (hd (dropWhile is_ws xs))" by (rule hd_dropWhile)
      with False show ?thesis by (simp add: hd_collapse_spec)
    qed
    with True 2 show ?thesis by simp
  qed
qed

lemma collapse_wsnorm: "wsnorm s \<Longrightarrow> collapse_spec s = s"
proof (induction s rule: collapse_spec.induct)
  case 1
  then show ?case by simp
next
  case (2 x xs)
  show ?case
  proof (cases "is_ws x")
    case False
    with 2 show ?thesis by simp
  next
    case True
    with 2 have "dropWhile is_ws xs = xs" by (cases xs) auto
    with True 2 show ?thesis by simp
  qed
qed

lemma wsnorm_drop: "wsnorm s \<Longrightarrow> wsnorm (drop n s)"
  by (induction s arbitrary: n) (auto simp: drop_Cons split: nat.splits)

lemma wsnorm_take: "wsnorm s \<Longrightarrow> wsnorm (take n s)"
proof (induction s arbitrary: n)
  case Nil
  then show ?case by simp
next
  case (Cons x xs)
  show ?case
  proof (cases n)
    case 0
    then show ?thesis by simp
  next
    case (Suc m)
    have "take m xs = [] \<or> hd (take m xs) = hd xs" by (cases xs; cases m) auto
    with Cons Suc show ?thesis by auto
  qed
qed

lemma wsnorm_set: "wsnorm s \<Longrightarrow> c \<in> set s \<Longrightarrow> is_ws c \<Longrightarrow> c = 32"
  by (induction s) auto

lemma trim_take_drop: "\<exists>m n. trim s = take m (drop n s)"
proof -
  let ?d = "dropWhile is_ws s"
  have "?d = drop (length (takeWhile is_ws s)) s" by (rule dropWhile_eq_drop)
  moreover have "rev (dropWhile is_ws (rev ?d)) = take (length ?d - length (takeWhile is_ws (rev ?d))) ?d"
    by (simp add: dropWhile_eq_drop [of is_ws "rev ?d"] rev_drop)
  ultimately show ?thesis unfolding trim_def by metis
qed

lemma hd_take_nonempty: "take n xs \<noteq> [] \<Longrightarrow> hd (take n xs) = hd xs"
  by (cases xs; cases n) auto

lemma trim_idem: "trim (trim s) = trim s"
proof -
  let ?d = "dropWhile is_ws s"
  let ?e = "rev (dropWhile is_ws (rev ?d))"
  have e: "?e = take (length ?d - length (takeWhile is_ws (rev ?d))) ?d"
    by (simp add: dropWhile_eq_drop [of is_ws "rev ?d"] rev_drop)
  have "dropWhile is_ws ?e = ?e"
  proof (cases "?e = []")
    case True
    then show ?thesis by (simp only: dropWhile.simps)
  next
    case False
    have d: "?d \<noteq> []"
    proof
      assume "?d = []"
      then have "?e = []" by (simp only: rev.simps dropWhile.simps)
      with False show False by blast
    qed
    from d have "\<not> is_ws (hd ?d)" by (rule hd_dropWhile)
    moreover have "hd ?e = hd ?d"
      using False hd_take_nonempty [of "length ?d - length (takeWhile is_ws (rev ?d))" ?d]
      unfolding e [symmetric] by blast
    ultimately show ?thesis using False by (cases ?e) auto
  qed
  then show ?thesis by (simp add: trim_def dropWhile_idem)
qed


lemma trim_notag: "notag s \<Longrightarrow> notag (trim s)"
proof -
  assume n: "notag s"
  obtain m k where "trim s = take m (drop k s)" using trim_take_drop by blast
  with n show ?thesis by (simp add: notag_take notag_drop)
qed

lemma trim_wsnorm: "wsnorm s \<Longrightarrow> wsnorm (trim s)"
proof -
  assume n: "wsnorm s"
  obtain m k where "trim s = take m (drop k s)" using trim_take_drop by blast
  with n show ?thesis by (simp add: wsnorm_take wsnorm_drop)
qed

lemma map_nbsp_id: "160 \<notin> set xs \<Longrightarrow> map (\<lambda>c. if c = 160 then 32 else c) xs = xs"
  by (induction xs) auto

definition clean_spec :: "jstring \<Rightarrow> jstring" where
  "clean_spec s = trim (collapse_spec (strip_spec (map (\<lambda>c. if c = 160 then 32 else c) s)))"

lemma no_newline_collapse: "10 \<notin> set (collapse_spec s)"
  using wsnorm_set [OF wsnorm_collapse, of 10 s] by (auto simp: is_ws_simps)

lemma clean_str_spec: "clean_str s = (if clean_spec s = [] then None else Some (clean_spec s))"
  by (simp add: clean_str_def clean_spec_def str_replace_g_def replace_nbsp replace_tag
        replace_spaces replace_newlines no_newline_collapse Let_def)

lemma clean_spec_idem: "clean_spec (clean_spec s) = clean_spec s"
proof -
  let ?u = "strip_spec (map (\<lambda>c. if c = 160 then 32 else c) s)"
  let ?t = "clean_spec s"
  have t: "?t = trim (collapse_spec ?u)" by (simp add: clean_spec_def)
  have nt: "notag ?t" unfolding t by (intro trim_notag notag_collapse notag_strip)
  have wn: "wsnorm ?t" unfolding t by (intro trim_wsnorm wsnorm_collapse)
  have "160 \<notin> set ?t" using wsnorm_set [OF wn, of 160] by (auto simp: is_ws_simps)
  then have "map (\<lambda>c. if c = 160 then 32 else c) ?t = ?t"
    by (rule map_nbsp_id)
  moreover have "strip_spec ?t = ?t" using nt by (rule strip_notag)
  moreover have "collapse_spec ?t = ?t" using wn by (rule collapse_wsnorm)
  moreover have "trim ?t = ?t" unfolding t by (rule trim_idem)
  ultimately show ?thesis by (simp add: clean_spec_def [of ?t])
qed


section \<open>Properties of the cleaner\<close>

text \<open>
  C7. The cleaner is idempotent: for every string \<open>s\<close>, cleaning the result of
  \<open>clean(s)\<close> (a string, or \<open>null\<close> when nothing is left) gives that result again.
\<close>

theorem clean_idempotent: "clean (opt_js (clean_str s)) = Inr (clean_str s)"
  by (simp add: clean_str_spec clean_spec_idem)

text \<open>
  C8. The replacement of runs of three or more newlines never applies: the replacement
  before it has turned every newline into a space. On \<open>"a\n\n\n\nb"\<close> the cleaner
  returns \<open>"a b"\<close>, with no newline left.
\<close>

theorem clean_newline_run:
  "clean_str (js ''a\<newline>\<newline>\<newline>\<newline>b'') = Some (js ''a b'')"
  by (simp add: clean_str_spec clean_spec_def js_def trim_def is_ws_def in_ranges_def
        ws_ranges_def tag_close_def)


section \<open>Facts about the resolver and the strict mode\<close>

lemma js_or_truthy: "truthy a \<Longrightarrow> js_or a b = a"
  by (simp add: js_or_def)

lemma truthy_js_or: "truthy (js_or a b) \<longleftrightarrow> truthy a \<or> truthy b"
  by (simp add: js_or_def)

text \<open>
  The block that follows a prompt reference is guarded by
  \<open>!lyrics && songData?.metadata?.prompt\<close>. A truthy \<open>metadata.prompt\<close> is the first
  operand of the \<open>||\<close> chain that gave \<open>lyrics\<close>, so the guard is false on every page:
  the block never runs.
\<close>

lemma prompt_reference_skipped:
  "prompt_reference rt html sd (nextData_lyrics nd (candidate_lyrics sd)) =
     Inr (nextData_lyrics nd (candidate_lyrics sd))"
proof (cases "truthy (get (get sd ''metadata'') ''prompt'')")
  case True
  then have "truthy (candidate_lyrics sd)"
    by (simp add: candidate_lyrics_def truthy_js_or)
  then have "truthy (nextData_lyrics nd (candidate_lyrics sd))"
    by (simp add: nextData_lyrics_def Let_def truthy_js_or)
  then show ?thesis by (simp add: prompt_reference_def Let_def)
next
  case False
  then show ?thesis by (simp add: prompt_reference_def Let_def)
qed

lemma resolve_styles_negative:
  assumes "\<not> truthy (get sd ''display_tags'')"
    and "\<not> truthy (get (get sd ''metadata'') ''tags'')"
    and "get (get sd ''metadata'') ''negative_tags'' = JStr t"
    and "t \<noteq> []"
  shows "resolve rt html sd nd =
           Inr (fallback_title html (candidate_title sd), fallback_artist html (candidate_artist sd),
                fallback_lyrics html (nextData_lyrics nd (candidate_lyrics sd)),
                JStr (js ''NOT: '' @ t))"
proof -
  from assms have c: "\<not> truthy (candidate_styles sd)"
    by (simp add: candidate_styles_def js_or_def)
  with assms have n: "negative_styles rt sd (candidate_styles sd) = Inr (JStr (js ''NOT: '' @ t))"
    by (simp add: negative_styles_def Let_def)
  have "truthy (JStr (js ''NOT: '' @ t))" by (simp add: js_def)
  then have "fallback_styles html (nextData_styles nd (JStr (js ''NOT: '' @ t))) = JStr (js ''NOT: '' @ t)"
    by (simp add: fallback_styles_def nextData_styles_def js_or_def Let_def)
  with n show ?thesis
    by (simp add: resolve_def prompt_reference_skipped)
qed

text \<open>
  The texts that the strict mode gives to \<open>JSON.parse\<close>: the content of the
  \<open>__NEXT_DATA__\<close> script, and the content of every script that starts with a brace.
\<close>

definition script_text :: "jstring \<Rightarrow> jstring option" where
  "script_text script = Option.bind (str_match False script_re script) (\<lambda>m. cap m 1)"

definition brace_texts :: "jstring list \<Rightarrow> jstring list" where
  "brace_texts ss =
     concat (map (\<lambda>script. case script_text script of
                               None \<Rightarrow> []
                             | Some c \<Rightarrow> if startsWith (trim c) [123] then [c] else []) ss)"

definition payload_texts :: "jstring \<Rightarrow> jstring list" where
  "payload_texts html =
     (case Option.bind (str_match False nextData_re html) (\<lambda>m. cap m 1) of
        None \<Rightarrow> []
      | Some c \<Rightarrow> [c])
     @ brace_texts (allScripts html)"

lemma generic_loop_None:
  "\<forall>t\<in>set (brace_texts ss). JSON_parse t = None \<Longrightarrow> generic_loop ss = None"
  by (induction ss)
     (auto simp: brace_texts_def script_text_def split: option.splits if_splits)

lemma extract_page_None:
  assumes "\<forall>t\<in>set (payload_texts html). JSON_parse t = None"
  shows "extract_page now u html = None"
proof -
  from assms have g: "generic_loop (allScripts html) = None"
    by (intro generic_loop_None) (simp add: payload_texts_def)
  have "Option.bind (str_match False nextData_re html) (\<lambda>m. Option.bind (cap m 1) JSON_parse) = None"
  proof (cases "str_match False nextData_re html")
    case None
    then show ?thesis by simp
  next
    case (Some m)
    show ?thesis
    proof (cases "cap m 1")
      case None
      with Some show ?thesis by simp
    next
      case c: (Some c)
      with Some have "c \<in> set (payload_texts html)" by (simp add: payload_texts_def)
      with assms have "JSON_parse c = None" by blast
      with Some c show ?thesis by simp
    qed
  qed
  with g show ?thesis
    by (auto simp: extract_page_def extract_locate_def split: option.splits)
qed


section \<open>Running the handlers on a given page\<close>

text \<open>
  A greedy loop over a character class, run without nesting: the longest run of the
  class first, then the continuation from there backwards.
\<close>

fun try_back :: "bool \<Rightarrow> frame list \<Rightarrow> nat \<Rightarrow> jstring \<Rightarrow> caps \<Rightarrow> nat \<Rightarrow> (nat \<times> jstring \<times> caps) option" where
  "try_back ic k p s cs 0 = run ic k p s cs"
| "try_back ic k p s cs (Suc n) =
     (case run ic k (p + Suc n) (drop (Suc n) s) cs of
        Some res \<Rightarrow> Some res
      | None \<Rightarrow> try_back ic k p s cs n)"

lemma try_back_Cons:
  "try_back ic k p (x # xs) cs (Suc n) =
     (case try_back ic k (p + 1) xs cs n of
        Some res \<Rightarrow> Some res
      | None \<Rightarrow> run ic k p (x # xs) cs)"
  by (induction n) (simp_all split: option.splits)

lemma run_star_class:
  "run ic (M (Star True (Cls neg rs)) # k) p s cs =
     try_back ic k p s cs (length (takeWhile (cls_match ic neg rs) s))"
proof (induction s arbitrary: p)
  case Nil
  show ?case by (subst run.simps(13)) (simp del: run.simps(13))
next
  case (Cons x xs)
  show ?case
  proof (cases "cls_match ic neg rs x")
    case True
    then show ?thesis
      by (subst run.simps(13)) (simp add: Cons.IH try_back_Cons del: run.simps(13) try_back.simps)
  next
    case False
    then show ?thesis by (subst run.simps(13)) (simp del: run.simps(13))
  qed
qed

lemma try_back_ev:
  "try_back ic k p s cs n =
     (case run ic k (p + n) (drop n s) cs of
        Some res \<Rightarrow> Some res
      | None \<Rightarrow> if n = 0 then None else try_back ic k p s cs (n - 1))"
  by (cases n) (simp_all split: option.splits)

text \<open>One step of the matcher on a subject whose first code unit is known.\<close>

lemma run_step:
  "run ic (M (Lit (c # l)) # k) p [] cs = None"
  "canon ic c = canon ic x \<Longrightarrow>
     run ic (M (Lit (c # l)) # k) p (x # xs) cs = run ic (M (Lit l) # k) (p + 1) xs cs"
  "canon ic c \<noteq> canon ic x \<Longrightarrow> run ic (M (Lit (c # l)) # k) p (x # xs) cs = None"
  "run ic (M (Cls neg rs) # k) p [] cs = None"
  "cls_match ic neg rs x \<Longrightarrow> run ic (M (Cls neg rs) # k) p (x # xs) cs = run ic k (p + 1) xs cs"
  "\<not> cls_match ic neg rs x \<Longrightarrow> run ic (M (Cls neg rs) # k) p (x # xs) cs = None"
  "run ic (M Dot # k) p [] cs = None"
  "\<not> line_terminator x \<Longrightarrow> run ic (M Dot # k) p (x # xs) cs = run ic k (p + 1) xs cs"
  "line_terminator x \<Longrightarrow> run ic (M Dot # k) p (x # xs) cs = None"
  "run ic (M (Star True (Seq a b)) # k) p s cs =
     (case run ic (M (Seq a b) # Prog p True (Seq a b) # k) p s cs of
        Some res \<Rightarrow> Some res
      | None \<Rightarrow> run ic k p s cs)"
  "run ic (M (Star False r) # k) p s cs =
     (case run ic k p s cs of
        Some res \<Rightarrow> Some res
      | None \<Rightarrow> run ic (M r # Prog p False r # k) p s cs)"
  "p0 < p \<Longrightarrow> run ic (Prog p0 g r # k) p s cs = run ic (M (Star g r) # k) p s cs"
  "\<not> p0 < p \<Longrightarrow> run ic (Prog p0 g r # k) p s cs = None"
  by simp_all

lemma take_drop_one: "take 1 (x # xs) = [x]" "drop 1 (x # xs) = xs"
  by simp_all

lemma length_Cons_ev: "length (x # xs) = length xs + 1"
  by simp

text \<open>The rewrite rules that compute the handlers on a page given as a list of code units.\<close>

lemmas run_ev = run.simps(1,2,9,10,11,12,15,16,17) run_step run_star_class try_back_ev

lemmas num_ev = arith_simps rel_simps diff_zero diff_0_eq_0 diff_self_eq_0
  nat_numeral nat_0 nat_neg_numeral diff_nat_numeral nat_numeral_diff_1 mult_1 mult_1_right
  mult_0 mult_0_right nat_1 diff_numeral_special add_numeral_special
  of_nat_numeral of_nat_0 of_nat_1 order_refl

lemmas list_ev = list.case list.inject list.distinct list.map append.simps rev_conv_fold
  fold_simps fun_upd_apply sort_key_simps
  filter.simps foldl.simps foldr.simps take_Cons_numeral drop_Cons_numeral take_drop_one
  length_Cons_ev
  take_0 drop_0 take.simps(1) drop.simps(1) list.size(3) dropWhile.simps takeWhile.simps
  list_ex_Nil_iff list_ex_Cons_iff list_all_Nil_iff list_all_Cons_iff list.sel map_of.simps
  concat.simps

lemmas hol_ev = o_apply id_apply simp_thms if_True if_False Let_def option.case option.inject
  option.distinct option.map Option.bind.simps prod.case prod.inject fst_conv snd_conv
  sum.case sum.inject sum.distinct map_sum.simps

lemmas match_ev = run_ev exec_at_def search.simps str_match_def all_matches.simps match_g_def
  replace_all.simps str_replace_g_def canon_def cls_match_def in_ranges_def
  line_terminator_def swapcase_def rmatch.sel rmatch.inject cap_def

lemmas pat_ev = seqs_def plus_def opt_def space_def ws_ranges_def L_def alts.simps any_def
  not_gt_def not_lt_def not_dq_def quote_def not_quote_def not_rb_def not_eq_def hex_def
  escaped_body_def nextData_re_def nextf_re_def script_re_def descBy_re_def url_re_def

lemmas char_ev = js_def of_char_Char horner_sum_simps of_bool_eq

lemmas json_ev = json_ws_def skip_ws_def is_digit_def hex_value_def hex4.simps escape_char_def
  json_string.simps digits_value_def json_int_part_def json_frac_part_def json_exp_part_def
  json_number_def json_literal_def startsWith.simps str_includes.simps obj_put.simps
  array_index_def obj_order_def parse.simps JSON_parse_def num_nonzero_def truthy.simps
  js_or_def lookup_def get.simps jsval.case jsval.inject jsval.distinct trim_def is_ws_def
  obj_def pick_def

lemmas locate_ev = legacy_strategy_def findSongData.simps unescape_def clip_marker_def
  status_marker_def streaming_loop.simps streaming_strategy_def allScripts_def
  generic_loop.simps generic_strategy_def locate_def

lemmas resolve_ev = candidate_title_def candidate_artist_def candidate_lyrics_def
  candidate_styles_def negative_styles_def to_string.simps nextData_lyrics_def
  nextData_styles_def prompt_reference_def fallback_title_def fallback_artist_def
  fallback_lyrics_def fallback_styles_def resolve_def

lemmas clean_ev = clean.simps clean_str_spec clean_spec_def strip_spec.simps
  collapse_spec.simps tag_close_def after_gt.simps

lemmas assemble_ev = assemble_def parse_page_def note_text_def response.select_convs
  runtime.select_convs

lemmas handler_ev = valid_url_def parse_handler_def extract_handler_def extract_page_def
  extract_locate_def payload_texts_def brace_texts_def script_text_def fetched.case
  reply.inject reply.distinct exn.distinct

lemmas congs_ev = if_weak_cong option.case_cong_weak list.case_cong_weak prod.case_cong_weak
  sum.case_cong_weak jsval.case_cong_weak

lemmas page_ev = pat_ev char_ev num_ev list_ev hol_ev match_ev json_ev locate_ev resolve_ev
  clean_ev assemble_ev handler_ev

text \<open>
  A URL that the handlers accept, a time stamp, and a runtime for the closed instances
  below: the pages used there hold no number to print and compile no pattern, and the
  serialisation of the candidate is left empty.
\<close>

definition song_url :: jstring where
  "song_url = js ''https://suno.com/song/ab12-cd34''"

definition now0 :: jstring where
  "now0 = js ''2024-01-01T00:00:00.000Z''"

definition rt0 :: runtime where
  "rt0 = \<lparr> number_toString = (\<lambda>m e. []), json_stringify = (\<lambda>v. []),
           regexp_matchAll = (\<lambda>p s. None) \<rparr>"

lemma valid_song_url: "valid_url song_url"
  by (simp only: song_url_def page_ev cong: congs_ev)


section \<open>The legacy script alone\<close>

definition page3 :: jstring where
  \<open>page3 = js ''<html><body><script id="__NEXT_DATA__" type="application/json">{"props":{"pageProps":{"song":{"title":"T","display_name":"A","metadata":{"prompt":"P","tags":"pop"}}}}}</script></body></html>''\<close>

definition song3 :: jsval where
  "song3 = obj [(''title'', JStr (js ''T'')), (''display_name'', JStr (js ''A'')),
     (''metadata'', obj [(''prompt'', JStr (js ''P'')), (''tags'', JStr (js ''pop''))])]"

definition next3 :: jsval where
  "next3 = obj [(''props'', obj [(''pageProps'', obj [(''song'', song3)])])]"

definition json3 :: jstring where
  \<open>json3 = js ''{"props":{"pageProps":{"song":{"title":"T","display_name":"A","metadata":{"prompt":"P","tags":"pop"}}}}}''\<close>

lemma parse_json3: "JSON_parse json3 = Some next3"
  by (simp only: json3_def next3_def song3_def page_ev cong: congs_ev)

lemma resolve_song3:
  "resolve rt html song3 next3 = Inr (JStr (js ''T''), JStr (js ''A''), JStr (js ''P''), JStr (js ''pop''))"
  by (simp only: next3_def song3_def page_ev cong: congs_ev)

text \<open>
  C3. Take any page whose \<open>__NEXT_DATA__\<close> script holds the text
  \<open>{"props":{"pageProps":{"song":{"title":"T","display_name":"A","metadata":{"prompt":"P","tags":"pop"}}}}}\<close>
  and on which the scan of the scripts accepts no payload, so that this script is the
  only embedded data. Whatever the URL and the runtime, the handler of /parse sends the
  record with title \<open>T\<close>, artist \<open>A\<close>, lyrics \<open>P\<close> and styles \<open>pop\<close>; every other
  field of the record is given as well.
\<close>

theorem scenario_legacy_script:
  assumes "Option.bind (str_match False nextData_re html) (\<lambda>m. cap m 1) = Some json3"
    and "generic_loop (allScripts html) = None"
  shows "parse_page rt u html =
     Inr \<lparr> url = u, title = Some (js ''T''), artist = Some (js ''A''), lyrics = Some (js ''P''),
           styles = Some (js ''pop''), audio_url = JNull, transcription_note = None,
           rawHtmlSnippet = take 2000 html,
           songData = Some (take 500 (json_stringify rt song3)),
           hasNextData = True, scriptCount = length (allScripts html),
           htmlLength = length html,
           found_title = True, found_artist = True, found_lyrics = True, found_styles = True,
           found_audio_url = False \<rparr>"
proof -
  from assms(1) obtain m where m: "str_match False nextData_re html = Some m" "cap m 1 = Some json3"
    by (cases "str_match False nextData_re html") auto
  have s: "get (get (get next3 ''props'') ''pageProps'') ''song'' = song3"
    by (simp only: next3_def song3_def char_ev num_ev list_ev hol_ev json_ev cong: congs_ev)
  have t: "truthy song3" by (simp add: song3_def obj_def)
  from m s t have l: "legacy_strategy html = (song3, next3)"
    by (simp add: legacy_strategy_def parse_json3 js_or_def)
  from l t assms(2) have "locate html = (song3, next3)"
    by (simp add: locate_def streaming_strategy_def generic_strategy_def)
  then have p: "parse_page rt u html = assemble rt u html song3
       (JStr (js ''T''), JStr (js ''A''), JStr (js ''P''), JStr (js ''pop''))"
    by (simp add: parse_page_def resolve_song3)
  have c: "clean (JStr (js ''T'')) = Inr (Some (js ''T''))"
      "clean (JStr (js ''A'')) = Inr (Some (js ''A''))"
      "clean (JStr (js ''P'')) = Inr (Some (js ''P''))"
      "clean (JStr (js ''pop'')) = Inr (Some (js ''pop''))"
    by (simp_all only: page_ev cong: congs_ev)
  have a: "js_or (get song3 ''audio_url'') JNull = JNull"
    by (simp only: song3_def char_ev num_ev list_ev hol_ev json_ev cong: congs_ev)
  have n: "js ''T'' \<noteq> []" "js ''A'' \<noteq> []" "js ''P'' \<noteq> []" "js ''pop'' \<noteq> []"
    by (simp_all add: js_def)
  show ?thesis
    unfolding p assemble_def prod.case Let_def a c sum.case
    using t m(1) n by simp
qed

theorem scenario_legacy_script_witness:
  "Option.bind (str_match False nextData_re page3) (\<lambda>m. cap m 1) = Some json3
   \<and> generic_loop (allScripts page3) = None
   \<and> parse_page rt0 song_url page3 =
     Inr \<lparr> url = song_url, title = Some (js ''T''), artist = Some (js ''A''),
           lyrics = Some (js ''P''), styles = Some (js ''pop''), audio_url = JNull,
           transcription_note = None, rawHtmlSnippet = page3,
           songData = Some (take 500 (json_stringify rt0 song3)),
           hasNextData = True, scriptCount = 1, htmlLength = 190,
           found_title = True, found_artist = True, found_lyrics = True, found_styles = True,
           found_audio_url = False \<rparr>"
proof -
  have a: "Option.bind (str_match False nextData_re page3) (\<lambda>m. cap m 1) = Some json3"
    by (simp only: page3_def json3_def page_ev cong: congs_ev)
  have b: "generic_loop (allScripts page3) = None"
    by (simp only: page3_def page_ev cong: congs_ev)
  have c: "take 2000 page3 = page3" "length (allScripts page3) = 1" "length page3 = 190"
    by (simp_all only: page3_def page_ev cong: congs_ev)
  from scenario_legacy_script [OF a b, of rt0 song_url] a b show ?thesis
    unfolding c by blast
qed


section \<open>The order of the strategies\<close>

definition page1 :: jstring where
  \<open>page1 = js ''<script id="__NEXT_DATA__" type="application/json">{"props":{"pageProps":{"song":{"title":"T","display_name":"A","metadata":{"prompt":"P","tags":"pop"}}}}}</script><script>{"title":"X"}</script>''\<close>

text \<open>
  C1. On a page with the \<open>__NEXT_DATA__\<close> script of a song titled \<open>T\<close> by \<open>A\<close>, followed
  by a script whose content is \<open>{"title":"X"}\<close>, the first strategy resolves the title
  \<open>T\<close>; the scan of the scripts that start with a brace runs all the same and replaces
  the candidate. The record sent has the title \<open>X\<close> and no artist; lyrics and styles
  are those of the first script, read again from the \<open>__NEXT_DATA__\<close> properties.
\<close>

theorem generic_script_overwrites_title:
  "candidate_title (fst (legacy_strategy page1)) = JStr (js ''T'')
   \<and> map_sum id (\<lambda>r. (title r, artist r, lyrics r, styles r)) (parse_page rt u page1)
       = Inr (Some (js ''X''), None, Some (js ''P''), Some (js ''pop''))"
  by (simp only: page1_def page_ev cong: congs_ev)


section \<open>A field that is not a string\<close>

definition page2 :: jstring where
  \<open>page2 = js ''<script id="__NEXT_DATA__" type="application/json">{"props":{"pageProps":{"song":{"title":5,"display_name":"A","metadata":{"prompt":"P","tags":"pop"}}}}}</script>''\<close>

text \<open>
  C2. The page is fetched with a 2xx status, and its embedded song has the number \<open>5\<close>
  for title. The title is truthy, \<open>clean\<close> calls \<open>replace\<close> on it and throws a TypeError,
  and the handler answers with status 500, as it does for a failed fetch.
\<close>

theorem non_string_title_fails:
  "parse_handler rt song_url (HttpResponse True page2) = Failed500 TypeError"
  by (simp only: page2_def song_url_def page_ev cong: congs_ev)


section \<open>The reference of a prompt to a streamed chunk\<close>

definition page4 :: jstring where
  \<open>page4 = js ''<script id="__NEXT_DATA__" type="application/json">{"props":{"pageProps":{"song":{"title":"T","display_name":"A","metadata":{"prompt":"$18","tags":"pop"}}}}}</script><script>self.__next_f.push([{"clip":1},"18:T3c,words of a persona, not of the song"])</script><script>self.__next_f.push([1,"18:T2f,[Verse] the words of the song itself"])</script>''\<close>

text \<open>
  C4. The candidate of this page has the prompt \<open>$18\<close>, and two chunks carry the id
  \<open>18\<close>: one with a \<open>clip\<close> object, one without, whose text is longer than 20 code
  units. The lyrics sent are the marker \<open>$18\<close> itself: the text of neither chunk is
  looked up.
\<close>

theorem prompt_reference_not_resolved:
  "map_sum id (\<lambda>r. (title r, artist r, lyrics r, styles r)) (parse_page rt u page4)
     = Inr (Some (js ''T''), Some (js ''A''), Some (js ''$18''), Some (js ''pop''))"
  by (simp only: page4_def page_ev cong: congs_ev)


section \<open>The strict mode\<close>

definition page5 :: jstring where
  \<open>page5 = js ''<script id="__NEXT_DATA__" type="application/json">{"props":</script>''\<close>

definition text5 :: jstring where
  \<open>text5 = js ''{"props":''\<close>

text \<open>
  C5. In /extract, with a valid URL and a page fetched with a 2xx status: when none of
  the texts given to \<open>JSON.parse\<close> is JSON, the answer is the status 404; and when the
  answer is a record, one of these texts is JSON.
\<close>

theorem extract_strict:
  "(valid_url u \<and> (\<forall>t\<in>set (payload_texts html). JSON_parse t = None)
      \<longrightarrow> extract_handler now u (HttpResponse True html) = NotFound404)
   \<and> (extract_handler now u (HttpResponse True html) = Ok200 r
      \<longrightarrow> (\<exists>t\<in>set (payload_texts html). JSON_parse t \<noteq> None))"
proof (intro conjI impI)
  assume "valid_url u \<and> (\<forall>t\<in>set (payload_texts html). JSON_parse t = None)"
  then show "extract_handler now u (HttpResponse True html) = NotFound404"
    by (simp add: extract_handler_def extract_page_None)
next
  assume ok: "extract_handler now u (HttpResponse True html) = Ok200 r"
  show "\<exists>t\<in>set (payload_texts html). JSON_parse t \<noteq> None"
  proof (rule ccontr)
    assume "\<not> (\<exists>t\<in>set (payload_texts html). JSON_parse t \<noteq> None)"
    then have "\<forall>t\<in>set (payload_texts html). JSON_parse t = None" by blast
    then have "extract_page now u html = None" by (rule extract_page_None)
    with ok show False by (simp add: extract_handler_def split: if_splits)
  qed
qed

theorem extract_strict_witness:
  "payload_texts page5 = [text5, text5] \<and> JSON_parse text5 = None
   \<and> extract_handler now0 song_url (HttpResponse True page5) = NotFound404
   \<and> extract_handler now0 song_url (HttpResponse True page3)
       = Ok200 (organizedData now0 song_url next3)
   \<and> (\<exists>t\<in>set (payload_texts page3). JSON_parse t \<noteq> None)"
proof -
  have a: "payload_texts page5 = [text5, text5]"
    by (simp only: page5_def text5_def page_ev cong: congs_ev)
  have b: "JSON_parse text5 = None"
    by (simp only: text5_def page_ev cong: congs_ev)
  have c: "extract_handler now0 song_url (HttpResponse True page3)
             = Ok200 (organizedData now0 song_url next3)"
    by (simp only: page3_def song3_def next3_def song_url_def now0_def page_ev cong: congs_ev)
  from a b have "\<forall>t\<in>set (payload_texts page5). JSON_parse t = None" by simp
  with extract_strict [of song_url page5 now0] valid_song_url
  have d: "extract_handler now0 song_url (HttpResponse True page5) = NotFound404" by blast
  from extract_strict [of song_url page3 now0 "organizedData now0 song_url next3"] c
  have e: "\<exists>t\<in>set (payload_texts page3). JSON_parse t \<noteq> None" by blast
  from a b c d e show ?thesis by blast
qed


section \<open>Styles from the negative tags\<close>

definition page6 :: jstring where
  \<open>page6 = js ''<script id="__NEXT_DATA__" type="application/json">{"props":{"pageProps":{"song":{"title":"T","display_name":"A","metadata":{"prompt":"P","tags":"","negative_tags":"trap, lo-fi"}}}}}</script>''\<close>

definition song6 :: jsval where
  "song6 = obj [(''title'', JStr (js ''T'')), (''display_name'', JStr (js ''A'')),
     (''metadata'', obj [(''prompt'', JStr (js ''P'')), (''tags'', JStr []),
                         (''negative_tags'', JStr (js ''trap, lo-fi''))])]"

definition next6 :: jsval where
  "next6 = obj [(''props'', obj [(''pageProps'', obj [(''song'', song6)])])]"

text \<open>
  C6. When the candidate has no truthy \<open>display_tags\<close> and no truthy \<open>metadata.tags\<close>,
  and its \<open>metadata.negative_tags\<close> is a non-empty string \<open>t\<close>, the resolver returns, on
  every page, the styles \<open>NOT: \<close> followed by \<open>t\<close>.
\<close>

theorem negative_tags_styles:
  assumes "\<not> truthy (get sd ''display_tags'')"
    and "\<not> truthy (get (get sd ''metadata'') ''tags'')"
    and "get (get sd ''metadata'') ''negative_tags'' = JStr t"
    and "t \<noteq> []"
  shows "\<exists>ti a l. resolve rt html sd nd = Inr (ti, a, l, JStr (js ''NOT: '' @ t))"
  using resolve_styles_negative [OF assms] by blast

theorem negative_tags_styles_witness:
  "locate page6 = (song6, next6)
   \<and> \<not> truthy (get song6 ''display_tags'')
   \<and> \<not> truthy (get (get song6 ''metadata'') ''tags'')
   \<and> get (get song6 ''metadata'') ''negative_tags'' = JStr (js ''trap, lo-fi'')
   \<and> (\<exists>ti a l. resolve rt0 page6 song6 next6 = Inr (ti, a, l, JStr (js ''NOT: trap, lo-fi'')))
   \<and> map_sum id styles (parse_page rt0 song_url page6) = Inr (Some (js ''NOT: trap, lo-fi''))"
proof -
  have a: "locate page6 = (song6, next6)"
    by (simp only: page6_def song6_def next6_def page_ev cong: congs_ev)
  have b: "\<not> truthy (get song6 ''display_tags'')"
    by (simp only: song6_def char_ev num_ev list_ev hol_ev json_ev cong: congs_ev)
  have c: "\<not> truthy (get (get song6 ''metadata'') ''tags'')"
    by (simp only: song6_def char_ev num_ev list_ev hol_ev json_ev cong: congs_ev)
  have d: "get (get song6 ''metadata'') ''negative_tags'' = JStr (js ''trap, lo-fi'')"
    by (simp only: song6_def char_ev num_ev list_ev hol_ev json_ev cong: congs_ev)
  have e: "js ''trap, lo-fi'' \<noteq> []" by (simp add: js_def)
  have f: "js ''NOT: '' @ js ''trap, lo-fi'' = js ''NOT: trap, lo-fi''" by (simp add: js_def)
  from negative_tags_styles [OF b c d e, of rt0 page6 next6]
  have g: "\<exists>ti a l. resolve rt0 page6 song6 next6 = Inr (ti, a, l, JStr (js ''NOT: trap, lo-fi''))"
    by (simp only: f)
  have h: "map_sum id styles (parse_page rt0 song_url page6) = Inr (Some (js ''NOT: trap, lo-fi''))"
    by (simp only: page6_def song_url_def rt0_def page_ev cong: congs_ev)
  from a b c d g h show ?thesis by blast
qed


section \<open>What is cleaned\<close>

definition page9 :: jstring where
  \<open>page9 = js ''<script id="__NEXT_DATA__" type="application/json">{"props":{"pageProps":{"song":{"title":"T","display_name":"A","audio_url":" https://cdn1.suno.ai/ab12.mp3 ","metadata":{"prompt":"P","tags":"pop"}}}}}</script>''\<close>

definition song9 :: jsval where
  "song9 = obj [(''title'', JStr (js ''T'')), (''display_name'', JStr (js ''A'')),
     (''audio_url'', JStr (js '' https://cdn1.suno.ai/ab12.mp3 '')),
     (''metadata'', obj [(''prompt'', JStr (js ''P'')), (''tags'', JStr (js ''pop''))])]"

definition next9 :: jsval where
  "next9 = obj [(''props'', obj [(''pageProps'', obj [(''song'', song9)])])]"

definition response9 :: response where
  "response9 =
     \<lparr> url = song_url, title = Some (js ''T''), artist = Some (js ''A''), lyrics = Some (js ''P''),
       styles = Some (js ''pop''), audio_url = JStr (js '' https://cdn1.suno.ai/ab12.mp3 ''),
       transcription_note = Some note_text, rawHtmlSnippet = page9,
       songData = Some (take 500 (json_stringify rt0 song9)),
       hasNextData = True, scriptCount = 1, htmlLength = 210,
       found_title = True, found_artist = True, found_lyrics = True, found_styles = True,
       found_audio_url = True \<rparr>"

lemmas page9_ev = page9_def song9_def next9_def response9_def song_url_def rt0_def

text \<open>
  C9 does not hold of the audio URL. The candidate of this page has an \<open>audio_url\<close>
  with a space at each end: the record sent has it unchanged, where the cleaner would
  have removed the two spaces.
\<close>

theorem audio_url_not_cleaned:
  "map_sum id audio_url (parse_page rt0 song_url page9)
     = Inr (JStr (js '' https://cdn1.suno.ai/ab12.mp3 ''))
   \<and> clean (JStr (js '' https://cdn1.suno.ai/ab12.mp3 ''))
     = Inr (Some (js ''https://cdn1.suno.ai/ab12.mp3''))"
  by (simp only: page9_ev page_ev cong: congs_ev)

text \<open>
  C9, amended. In every record that the handler of /parse sends, title, artist, lyrics
  and styles are what the cleaner returns for the values of the resolver; the audio URL
  is the \<open>audio_url\<close> of the candidate as it is (\<open>null\<close> when falsy), not cleaned.
\<close>

theorem response_fields:
  assumes "locate html = (sd, nd)"
    and "resolve rt html sd nd = Inr (t, a, l, s)"
    and "parse_page rt u html = Inr r"
  shows "clean t = Inr (title r) \<and> clean a = Inr (artist r)
         \<and> clean l = Inr (lyrics r) \<and> clean s = Inr (styles r)
         \<and> audio_url r = js_or (get sd ''audio_url'') JNull"
  using assms
  by (auto simp: parse_page_def assemble_def Let_def split: sum.splits prod.splits)

theorem response_fields_witness:
  "locate page9 = (song9, next9)
   \<and> resolve rt0 page9 song9 next9
       = Inr (JStr (js ''T''), JStr (js ''A''), JStr (js ''P''), JStr (js ''pop''))
   \<and> parse_page rt0 song_url page9 = Inr response9
   \<and> clean (JStr (js ''T'')) = Inr (title response9)
   \<and> clean (JStr (js ''A'')) = Inr (artist response9)
   \<and> clean (JStr (js ''P'')) = Inr (lyrics response9)
   \<and> clean (JStr (js ''pop'')) = Inr (styles response9)
   \<and> audio_url response9 = js_or (get song9 ''audio_url'') JNull"
proof -
  have a: "locate page9 = (song9, next9)"
    by (simp only: page9_ev page_ev cong: congs_ev)
  have b: "resolve rt0 page9 song9 next9
             = Inr (JStr (js ''T''), JStr (js ''A''), JStr (js ''P''), JStr (js ''pop''))"
    by (simp only: page9_ev page_ev cong: congs_ev)
  have c: "parse_page rt0 song_url page9 = Inr response9"
    unfolding parse_page_def a prod.case b sum.case
    by (simp only: page9_ev page_ev cong: congs_ev)
  from response_fields [OF a b c] show ?thesis using a b c by blast
qed


section \<open>The record depends on the page only\<close>

text \<open>
  C10. For a fixed text of the page (and a fixed runtime), two runs of the extraction of
  /parse, whatever the URL of each, end alike: with the same exception, or with records
  that agree on every field but the echoed URL.
\<close>

theorem parse_independent_of_url:
  "map_sum id (\<lambda>r. r\<lparr>url := []\<rparr>) (parse_page rt u1 html) =
   map_sum id (\<lambda>r. r\<lparr>url := []\<rparr>) (parse_page rt u2 html)"
  by (simp add: parse_page_def assemble_def Let_def split: prod.splits sum.splits)

end
